theory Spec2Isabelle
  imports Complex_Main "HOL-Library.List_Lexorder" "HOL-Library.Multiset" "HOL-Library.Sublist"
begin

section \<open>Python values\<close>

text \<open>
  A Python \<open>str\<close> is a sequence of Unicode code points: \<open>len\<close> counts code points and
  \<open><\<close> compares them lexicographically, a proper prefix being smaller. A string is
  therefore a list of natural numbers, ordered by the lexicographic order on lists.
  \<open>u\<close> reads an ASCII literal of the source.
\<close>

type_synonym pystr = "nat list"

definition u :: "string \<Rightarrow> pystr" where
  "u s = map (\<lambda>c. of_char c) s"

text \<open>
  What \<open>json.load\<close> returns: \<open>None\<close>, \<open>bool\<close>, \<open>int\<close>, \<open>float\<close> (a finite one is a
  rational number), \<open>str\<close>, \<open>list\<close> and \<open>dict\<close> (keys in document order).
\<close>

datatype json =
    JNull
  | JBool bool
  | JInt int
  | JFloat rat
  | JStr pystr
  | JArr "json list"
  | JObj "(pystr \<times> json) list"

datatype py_error =
    AttributeError
  | TypeError
  | KeyError
  | FileNotFoundError
  | UnicodeEncodeError
  | JSONDecodeError pystr
  | ReadError pystr

text \<open>
  Built-ins of the interpreter that the scripts call and whose full definition lies outside
  the repository are parameters: \<open>str()\<close> of a value that is not a string (used by the
  f-strings), \<open><\<close> between two lists, and \<open>int()\<close> of a string that holds a code point
  other than printable ASCII and ASCII white space, or more than 4300 code points. So are
  the encoders of the two text streams that the scripts write to: which code points above
  ASCII the encoder of \<open>sys.stdout\<close> accepts, and which the encoder of a file opened by
  \<open>open(path, 'w')\<close> accepts.
\<close>

record builtins =
  str_of :: "json \<Rightarrow> pystr"
  list_lt :: "json list \<Rightarrow> json list \<Rightarrow> py_error + bool"
  int_ext :: "pystr \<Rightarrow> bool"
  stdout_enc :: "nat \<Rightarrow> bool"
  file_enc :: "nat \<Rightarrow> bool"

definition then_do :: "'e + 'a \<Rightarrow> ('a \<Rightarrow> 'e + 'b) \<Rightarrow> 'e + 'b" where
  "then_do r f = (case r of Inl e \<Rightarrow> Inl e | Inr x \<Rightarrow> f x)"

text \<open>\<open>f"{v}"\<close>: a string is inserted as it is, any other value through \<open>str()\<close>.\<close>

definition fstr :: "builtins \<Rightarrow> json \<Rightarrow> pystr" where
  "fstr B v = (case v of JStr s \<Rightarrow> s | _ \<Rightarrow> str_of B v)"

text \<open>\<open>d.get(k, default)\<close> on a dict.\<close>

definition dict_get :: "(pystr \<times> json) list \<Rightarrow> pystr \<Rightarrow> json \<Rightarrow> json" where
  "dict_get kvs k d = (case map_of kvs k of None \<Rightarrow> d | Some v \<Rightarrow> v)"

text \<open>\<open>x.get(k, default)\<close> on any value: only a dict has the method.\<close>

definition py_get :: "json \<Rightarrow> pystr \<Rightarrow> json \<Rightarrow> py_error + json" where
  "py_get x k d = (case x of JObj kvs \<Rightarrow> Inr (dict_get kvs k d) | _ \<Rightarrow> Inl AttributeError)"

text \<open>Iterating a value, as \<open>list.extend\<close> does.\<close>

definition py_iter :: "json \<Rightarrow> py_error + json list" where
  "py_iter x = (case x of
       JArr xs \<Rightarrow> Inr xs
     | JStr s \<Rightarrow> Inr (map (\<lambda>c. JStr [c]) s)
     | JObj kvs \<Rightarrow> Inr (map (\<lambda>kv. JStr (fst kv)) kvs)
     | _ \<Rightarrow> Inl TypeError)"

text \<open>The numeric value of an \<open>int\<close>, \<open>bool\<close> or \<open>float\<close>.\<close>

definition py_num :: "json \<Rightarrow> rat option" where
  "py_num x = (case x of
       JInt i \<Rightarrow> Some (of_int i)
     | JBool b \<Rightarrow> Some (if b then 1 else 0)
     | JFloat q \<Rightarrow> Some q
     | _ \<Rightarrow> None)"

text \<open>\<open>a < b\<close>: defined between two strings, two numbers and two lists.\<close>

definition py_lt :: "builtins \<Rightarrow> json \<Rightarrow> json \<Rightarrow> py_error + bool" where
  "py_lt B a b = (case (a, b) of
       (JStr s, JStr t) \<Rightarrow> Inr (s < t)
     | (JArr xs, JArr ys) \<Rightarrow> list_lt B xs ys
     | _ \<Rightarrow> (case (py_num a, py_num b) of
                (Some p, Some q) \<Rightarrow> Inr (p < q)
              | _ \<Rightarrow> Inl TypeError))"

section \<open>Text streams\<close>

text \<open>
  Writing a text to a stream raises \<open>UnicodeEncodeError\<close> when the encoder rejects one of
  its code points, and then nothing of the text is written; ASCII is accepted by every
  encoder that Python gives to a text stream.
\<close>

definition enc_ok :: "(nat \<Rightarrow> bool) \<Rightarrow> pystr \<Rightarrow> bool" where
  "enc_ok enc s = list_all (\<lambda>c. c < 128 \<or> enc c) s"

text \<open>\<open>print(s)\<close>, and a sequence of prints, which stops at the first that raises.\<close>

definition print_text :: "builtins \<Rightarrow> pystr \<Rightarrow> py_error + unit" where
  "print_text B s = (if enc_ok (stdout_enc B) s then Inr () else Inl UnicodeEncodeError)"

fun print_all :: "builtins \<Rightarrow> pystr list \<Rightarrow> py_error + unit" where
  "print_all B [] = Inr ()"
| "print_all B (s # ss) = then_do (print_text B s) (\<lambda>_. print_all B ss)"

text \<open>
  The code points of the strings of a value, keys included: what \<open>json.dump\<close> with
  \<open>ensure_ascii=False\<close> writes apart from ASCII.
\<close>

fun json_points :: "json \<Rightarrow> pystr" where
  "json_points (JStr s) = s"
| "json_points (JArr xs) = concat (map json_points xs)"
| "json_points (JObj kvs) = concat (map (\<lambda>kv. fst kv @ json_points (snd kv)) kvs)"
| "json_points v = []"

text \<open>\<open>str(n)\<close> of a natural number.\<close>

fun dec :: "nat \<Rightarrow> pystr" where
  "dec n = (if n < 10 then [48 + n] else dec (n div 10) @ [48 + n mod 10])"

declare dec.simps [simp del]

section \<open>The plugins directory\<close>

text \<open>
  What reading \<open>plugin.json\<close> gives: the parsed document, a \<open>JSONDecodeError\<close> with its
  message, or any other exception of \<open>open\<close> and \<open>read\<close> with its message.
\<close>

datatype file_content =
    Parsed json
  | Malformed pystr
  | Unreadable pystr

text \<open>
  An entry of \<open>plugins/\<close> is a plain file or a directory, which holds a \<open>plugin.json\<close>
  or not. The listing is in the order of \<open>iterdir()\<close>; \<open>None\<close> is a missing root.
\<close>

datatype fs_entry =
    File pystr
  | Dir pystr "file_content option"

type_synonym plugins_root = "fs_entry list option"

section \<open>generate-registry.py\<close>

definition REPO_URL :: pystr where
  "REPO_URL = u ''https://github.com/Stumpf-works/stumpfworks-nas-apps''"

record entry =
  plugin_id :: json
  name :: json
  version :: json
  author :: json
  description :: json
  icon :: json
  category :: json
  repository_url :: pystr
  download_url :: pystr
  homepage :: json
  min_nas_version :: json
  require_docker :: json
  required_ports :: json
  screenshots :: "json list"
  tags :: "json list"

record registry =
  reg_version :: pystr
  updated :: pystr
  repository :: pystr
  plugins :: "entry list"

text \<open>A manifest path: the directory name and what reading the file gives.\<close>

type_synonym manifest_file = "pystr \<times> file_content"

fun find_plugin_manifests :: "fs_entry list \<Rightarrow> manifest_file list" where
  "find_plugin_manifests [] = []"
| "find_plugin_manifests (File n # ds) = find_plugin_manifests ds"
| "find_plugin_manifests (Dir n None # ds) = find_plugin_manifests ds"
| "find_plugin_manifests (Dir n (Some c) # ds) = (n, c) # find_plugin_manifests ds"

text \<open>\<open>json.load\<close> on the opened file.\<close>

definition json_load :: "file_content \<Rightarrow> py_error + json" where
  "json_load c = (case c of
       Parsed d \<Rightarrow> Inr d
     | Malformed m \<Rightarrow> Inl (JSONDecodeError m)
     | Unreadable m \<Rightarrow> Inl (ReadError m))"

text \<open>\<open>data.get(k1, {}).get(k2, default)\<close>.\<close>

definition get2 :: "json \<Rightarrow> pystr \<Rightarrow> pystr \<Rightarrow> json \<Rightarrow> py_error + json" where
  "get2 data k1 k2 d = then_do (py_get data k1 (JObj [])) (\<lambda>inner. py_get inner k2 d)"

text \<open>\<open>'tags' in data\<close> and \<open>tags.extend(data['tags'])\<close>, \<open>data\<close> being a dict here.\<close>

definition declared_tags :: "(pystr \<times> json) list \<Rightarrow> py_error + json list" where
  "declared_tags kvs = (case map_of kvs (u ''tags'') of
       None \<Rightarrow> Inr []
     | Some t \<Rightarrow> py_iter t)"

definition load_plugin_manifest :: "builtins \<Rightarrow> manifest_file \<Rightarrow> py_error + entry" where
  "load_plugin_manifest B mf =
     then_do (json_load (snd mf)) (\<lambda>data.
     then_do (py_get data (u ''id'') JNull) (\<lambda>pid.
       let plugin_dir = fst mf in
     then_do (py_get data (u ''version'') (JStr (u ''1.0.0''))) (\<lambda>ver.
       let repo_url = REPO_URL @ u ''/tree/main/plugins/'' @ plugin_dir;
           dl_url = REPO_URL @ u ''/releases/download/'' @ plugin_dir @ u ''-v'' @ fstr B ver
                    @ u ''/'' @ plugin_dir @ u ''-v'' @ fstr B ver @ u ''.tar.gz'' in
     then_do (py_get data (u ''name'') JNull) (\<lambda>nm.
     then_do (py_get data (u ''author'') JNull) (\<lambda>au.
     then_do (py_get data (u ''description'') JNull) (\<lambda>de.
     then_do (py_get data (u ''icon'') (JStr [128268])) (\<lambda>ic.
     then_do (py_get data (u ''category'') (JStr (u ''utilities''))) (\<lambda>ca.
     then_do (get2 data (u ''links'') (u ''homepage'') (JStr repo_url)) (\<lambda>hp.
     then_do (get2 data (u ''requires'') (u ''minNasVersion'') (JStr (u ''0.1.0''))) (\<lambda>mv.
     then_do (get2 data (u ''requires'') (u ''docker'') (JBool False)) (\<lambda>dk.
     then_do (get2 data (u ''requires'') (u ''ports'') (JArr [])) (\<lambda>po.
     then_do (case data of JObj kvs \<Rightarrow> declared_tags kvs | _ \<Rightarrow> Inl TypeError) (\<lambda>ts.
       Inr \<lparr> plugin_id = pid, name = nm, version = ver, author = au, description = de,
             icon = ic, category = ca, repository_url = repo_url, download_url = dl_url,
             homepage = hp, min_nas_version = mv, require_docker = dk,
             required_ports = po, screenshots = [], tags = ca # ts \<rparr>)))))))))))))"

text \<open>
  What the script prints. \<open>str(e)\<close> of an exception of reading or parsing is its message;
  the messages of the interpreter's other exceptions are ASCII text, which no encoder
  rejects, and are left out. Code points 9989 and 10060 are the check mark and the cross.
\<close>

datatype log_line =
    Found nat
  | Loaded json json
  | LoadFailed pystr py_error
  | Generated nat

definition exc_text :: "py_error \<Rightarrow> pystr" where
  "exc_text e = (case e of JSONDecodeError m \<Rightarrow> m | ReadError m \<Rightarrow> m | _ \<Rightarrow> [])"

fun line_text :: "builtins \<Rightarrow> log_line \<Rightarrow> pystr" where
  "line_text B (Found n) = u ''Found '' @ dec n @ u '' plugin manifests''"
| "line_text B (Loaded nm ver) = 9989 # u '' Loaded '' @ fstr B nm @ u '' v'' @ fstr B ver"
| "line_text B (LoadFailed plugin_dir e) =
     10060 # u '' Error loading plugins/'' @ plugin_dir @ u ''/plugin.json: '' @ exc_text e"
| "line_text B (Generated n) =
     10 # 9989 # u '' Generated registry.json with '' @ dec n @ u '' plugins''"

definition print_line :: "builtins \<Rightarrow> log_line \<Rightarrow> py_error + unit" where
  "print_line B l = print_text B (line_text B l)"

text \<open>
  The loop over the manifests. An entry that loads is appended and then reported; any
  exception in the \<open>try\<close>, that of the report included, is reported by the handler and
  the loop goes on, so an entry whose report raised stays in the list. An exception of the
  handler's own \<open>print\<close> leaves the function. The result holds the entries and the lines
  that were printed.
\<close>

fun load_all ::
    "builtins \<Rightarrow> manifest_file list \<Rightarrow> py_error + (entry list \<times> log_line list)" where
  "load_all B [] = Inr ([], [])"
| "load_all B (m # ms) =
     (case load_plugin_manifest B m of
        Inr e \<Rightarrow>
          (case print_line B (Loaded (name e) (version e)) of
             Inr _ \<Rightarrow>
               then_do (load_all B ms) (\<lambda>r.
                 Inr (e # fst r, Loaded (name e) (version e) # snd r))
           | Inl err \<Rightarrow>
               then_do (print_line B (LoadFailed (fst m) err)) (\<lambda>_.
               then_do (load_all B ms) (\<lambda>r.
                 Inr (e # fst r, LoadFailed (fst m) err # snd r))))
      | Inl err \<Rightarrow>
          then_do (print_line B (LoadFailed (fst m) err)) (\<lambda>_.
          then_do (load_all B ms) (\<lambda>r.
            Inr (fst r, LoadFailed (fst m) err # snd r))))"

text \<open>
  \<open>plugins.sort(key=lambda p: p['name'])\<close>. \<open>list.sort\<close> is stable and compares keys
  with \<open><\<close> only; when no comparison raises, its result is the one of the stable
  insertion below. A comparison that raises ends the sort with that exception. A list of
  fewer than two entries is sorted without any comparison, and two entries are always
  compared.
\<close>

fun insort_name :: "builtins \<Rightarrow> entry \<Rightarrow> entry list \<Rightarrow> py_error + entry list" where
  "insort_name B x [] = Inr [x]"
| "insort_name B x (y # ys) =
     then_do (py_lt B (name y) (name x)) (\<lambda>lt.
       if lt then then_do (insort_name B x ys) (\<lambda>r. Inr (y # r))
       else Inr (x # y # ys))"

fun sort_by_name :: "builtins \<Rightarrow> entry list \<Rightarrow> py_error + entry list" where
  "sort_by_name B [] = Inr []"
| "sort_by_name B (x # xs) = then_do (sort_by_name B xs) (insort_name B x)"

text \<open>
  \<open>json.dump(registry, f, indent=2, ensure_ascii=False)\<close> on the opened file: the strings
  of the entries are written as they are. The timestamp and the constants are ASCII.
\<close>

definition entry_points :: "entry \<Rightarrow> pystr" where
  "entry_points e =
     json_points (plugin_id e) @ json_points (name e) @ json_points (version e)
     @ json_points (author e) @ json_points (description e) @ json_points (icon e)
     @ json_points (category e) @ repository_url e @ download_url e
     @ json_points (homepage e) @ json_points (min_nas_version e)
     @ json_points (require_docker e) @ json_points (required_ports e)
     @ concat (map json_points (screenshots e)) @ concat (map json_points (tags e))"

definition json_dump :: "builtins \<Rightarrow> registry \<Rightarrow> py_error + unit" where
  "json_dump B r =
     (if list_all (\<lambda>e. enc_ok (file_enc B) (entry_points e)) (plugins r) then Inr ()
      else Inl UnicodeEncodeError)"

record gen_output =
  written :: registry
  console :: "log_line list"

text \<open>
  \<open>now\<close> is \<open>datetime.utcnow().isoformat()\<close>. The result is the registry that the function
  returns, which is the document it wrote to \<open>registry.json\<close>, with what was printed; or
  the exception that left the function. An exception before the file is opened leaves the
  file as it was, one of \<open>json.dump\<close> leaves it without a complete document, and one of
  the last \<open>print\<close> comes after the document was written. Opening the file is taken to
  succeed.
\<close>

definition generate_registry :: "builtins \<Rightarrow> pystr \<Rightarrow> plugins_root \<Rightarrow> py_error + gen_output" where
  "generate_registry B now plugins_dir = (case plugins_dir of
       None \<Rightarrow> Inl FileNotFoundError
     | Some ds \<Rightarrow>
         (let manifests = find_plugin_manifests ds in
          then_do (print_line B (Found (length manifests))) (\<lambda>_.
          then_do (load_all B manifests) (\<lambda>r.
          then_do (sort_by_name B (fst r)) (\<lambda>sorted.
            let registry = \<lparr> reg_version = u ''1.0.0'', updated = now @ u ''Z'',
                               repository = REPO_URL, plugins = sorted \<rparr> in
          then_do (json_dump B registry) (\<lambda>_.
          then_do (print_line B (Generated (length sorted))) (\<lambda>_.
            Inr \<lparr> written = registry,
                  console = Found (length manifests) # snd r
                            @ [Generated (length sorted)] \<rparr>)))))))"

section \<open>validate-plugins.py\<close>

definition REQUIRED_FIELDS :: "pystr list" where
  "REQUIRED_FIELDS = [u ''id'', u ''name'', u ''version'', u ''author'', u ''description'',
                      u ''icon'', u ''category'']"

definition VALID_CATEGORIES :: "pystr list" where
  "VALID_CATEGORIES = [u ''storage'', u ''media'', u ''communication'', u ''development'',
                       u ''monitoring'', u ''networking'', u ''productivity'', u ''security'',
                       u ''utilities'']"

text \<open>\<open>s.split('.')\<close>; code point 46 is the dot.\<close>

fun split_dot :: "pystr \<Rightarrow> pystr list" where
  "split_dot [] = [[]]"
| "split_dot (c # cs) =
     (if c = 46 then [] # split_dot cs
      else (case split_dot cs of p # ps \<Rightarrow> (c # p) # ps | [] \<Rightarrow> [[c]]))"

text \<open>
  \<open>int(s)\<close> succeeds or raises \<open>ValueError\<close>. On ASCII text it accepts white space around
  an optional sign followed by decimal digits, single underscores allowed between digits.
\<close>

definition is_ws :: "nat \<Rightarrow> bool" where
  "is_ws c = ((9 \<le> c \<and> c \<le> 13) \<or> c = 32)"

definition is_digit :: "nat \<Rightarrow> bool" where
  "is_digit c = (48 \<le> c \<and> c \<le> 57)"

fun digits_ok :: "pystr \<Rightarrow> bool" where
  "digits_ok [] = False"
| "digits_ok [c] = is_digit c"
| "digits_ok (c # d # cs) = (is_digit c \<and> (if d = 95 then digits_ok cs else digits_ok (d # cs)))"

definition strip_ws :: "pystr \<Rightarrow> pystr" where
  "strip_ws s = rev (dropWhile is_ws (rev (dropWhile is_ws s)))"

definition ascii_int :: "pystr \<Rightarrow> bool" where
  "ascii_int s = (case strip_ws s of
       [] \<Rightarrow> False
     | c # r \<Rightarrow> if c = 43 \<or> c = 45 then digits_ok r else digits_ok (c # r))"

definition plain_ascii :: "nat \<Rightarrow> bool" where
  "plain_ascii c = (is_ws c \<or> (33 \<le> c \<and> c \<le> 126))"

definition py_int :: "builtins \<Rightarrow> pystr \<Rightarrow> bool" where
  "py_int B s = (if length s \<le> 4300 \<and> list_all plain_ascii s then ascii_int s else int_ext B s)"

definition validate_semver :: "builtins \<Rightarrow> json \<Rightarrow> py_error + bool" where
  "validate_semver B v = (case v of
       JStr s \<Rightarrow>
         (let parts = split_dot s in
          if length parts < 3 then Inr False
          else Inr (list_all (py_int B) (take 3 parts)))
     | _ \<Rightarrow> Inl AttributeError)"

text \<open>Truth value of a value, as \<open>not x\<close> tests it.\<close>

definition truthy :: "json \<Rightarrow> bool" where
  "truthy x = (case x of
       JNull \<Rightarrow> False
     | JBool b \<Rightarrow> b
     | JInt i \<Rightarrow> i \<noteq> 0
     | JFloat q \<Rightarrow> q \<noteq> 0
     | JStr s \<Rightarrow> s \<noteq> []
     | JArr xs \<Rightarrow> xs \<noteq> []
     | JObj kvs \<Rightarrow> kvs \<noteq> [])"

definition validate_plugin_id :: "json \<Rightarrow> py_error + bool" where
  "validate_plugin_id v =
     (if \<not> truthy v then Inr False
      else (case v of
              JStr s \<Rightarrow> Inr (length (split_dot s) \<ge> 3)
            | _ \<Rightarrow> Inl AttributeError))"

text \<open>
  \<open>k in x\<close> for a string \<open>k\<close>: a key of a dict, an element of a list (only the same
  string is equal to \<open>k\<close>), a substring of a string; any other value is not iterable.
\<close>

definition py_in :: "pystr \<Rightarrow> json \<Rightarrow> py_error + bool" where
  "py_in k x = (case x of
       JObj kvs \<Rightarrow> Inr (map_of kvs k \<noteq> None)
     | JArr xs \<Rightarrow> Inr (JStr k \<in> set xs)
     | JStr s \<Rightarrow> Inr (sublist k s)
     | _ \<Rightarrow> Inl TypeError)"

text \<open>\<open>x[k]\<close> for a string \<open>k\<close>, after \<open>k in x\<close> held: lists and strings take no string index.\<close>

definition py_getitem :: "json \<Rightarrow> pystr \<Rightarrow> py_error + json" where
  "py_getitem x k = (case x of
       JObj kvs \<Rightarrow> (case map_of kvs k of Some v \<Rightarrow> Inr v | None \<Rightarrow> Inl KeyError)
     | _ \<Rightarrow> Inl TypeError)"

text \<open>\<open>if k in data\<close> followed by \<open>data[k]\<close>: the value when the rule applies.\<close>

definition field :: "json \<Rightarrow> pystr \<Rightarrow> py_error + json option" where
  "field data k =
     then_do (py_in k data) (\<lambda>present.
       if present then then_do (py_getitem data k) (\<lambda>v. Inr (Some v)) else Inr None)"

definition py_len :: "json \<Rightarrow> py_error + nat" where
  "py_len x = (case x of
       JStr s \<Rightarrow> Inr (length s)
     | JArr xs \<Rightarrow> Inr (length xs)
     | JObj kvs \<Rightarrow> Inr (length kvs)
     | _ \<Rightarrow> Inl TypeError)"

text \<open>\<open>sep.join(xs)\<close>.\<close>

fun join :: "pystr \<Rightarrow> pystr list \<Rightarrow> pystr" where
  "join sep [] = []"
| "join sep [x] = x"
| "join sep (x # y # ys) = x @ sep @ join sep (y # ys)"

text \<open>\<open>v not in VALID_CATEGORIES\<close>: only a string equals an element of the list.\<close>

definition in_categories :: "json \<Rightarrow> bool" where
  "in_categories v = (case v of JStr s \<Rightarrow> s \<in> set VALID_CATEGORIES | _ \<Rightarrow> False)"

text \<open>The rules, each giving the messages it appends.\<close>

fun missing_fields :: "json \<Rightarrow> pystr list \<Rightarrow> py_error + pystr list" where
  "missing_fields data [] = Inr []"
| "missing_fields data (f # fs) =
     then_do (py_in f data) (\<lambda>present.
     then_do (missing_fields data fs) (\<lambda>r.
       Inr (if present then r else (u ''Missing required field: '' @ f) # r)))"

definition id_rule :: "builtins \<Rightarrow> json \<Rightarrow> py_error + pystr list" where
  "id_rule B data =
     then_do (field data (u ''id'')) (\<lambda>f. case f of
         None \<Rightarrow> Inr []
       | Some v \<Rightarrow> then_do (validate_plugin_id v) (\<lambda>ok.
           Inr (if ok then []
                else [u ''Invalid plugin ID format: '' @ fstr B v
                      @ u '' (should be reverse domain notation)''])))"

definition version_warning :: "builtins \<Rightarrow> json \<Rightarrow> pystr" where
  "version_warning B v = u ''Version '' @ fstr B v @ u '' doesn't follow semantic versioning''"

definition version_rule :: "builtins \<Rightarrow> json \<Rightarrow> py_error + pystr list" where
  "version_rule B data =
     then_do (field data (u ''version'')) (\<lambda>f. case f of
         None \<Rightarrow> Inr []
       | Some v \<Rightarrow> then_do (validate_semver B v) (\<lambda>ok.
           Inr (if ok then [] else [version_warning B v])))"

definition category_error :: "builtins \<Rightarrow> json \<Rightarrow> pystr" where
  "category_error B v = u ''Invalid category: '' @ fstr B v @ u ''. Must be one of: ''
                        @ join (u '', '') VALID_CATEGORIES"

definition category_rule :: "builtins \<Rightarrow> json \<Rightarrow> py_error + pystr list" where
  "category_rule B data =
     then_do (field data (u ''category'')) (\<lambda>f. case f of
         None \<Rightarrow> Inr []
       | Some v \<Rightarrow> Inr (if in_categories v then [] else [category_error B v]))"

definition description_rule :: "json \<Rightarrow> py_error + pystr list" where
  "description_rule data =
     then_do (field data (u ''description'')) (\<lambda>f. case f of
         None \<Rightarrow> Inr []
       | Some v \<Rightarrow> then_do (py_len v) (\<lambda>desc_len.
           Inr (if desc_len < 20
                  then [u ''Description is very short ('' @ dec desc_len @ u '' characters)'']
                else if desc_len > 200
                  then [u ''Description is very long ('' @ dec desc_len @ u '' characters)'']
                else [])))"

definition name_rule :: "json \<Rightarrow> py_error + pystr list" where
  "name_rule data =
     then_do (field data (u ''name'')) (\<lambda>f. case f of
         None \<Rightarrow> Inr []
       | Some v \<Rightarrow> then_do (py_len v) (\<lambda>n.
           Inr (if n < 3 then [u ''Plugin name is too short''] else [])))"

definition author_rule :: "json \<Rightarrow> py_error + pystr list" where
  "author_rule data =
     then_do (field data (u ''author'')) (\<lambda>f. case f of
         None \<Rightarrow> Inr []
       | Some v \<Rightarrow> then_do (py_in (u ''@'') v) (\<lambda>has_at.
           Inr (if has_at
                  then [u ''Author field should not contain email (use links section instead)'']
                else [])))"

text \<open>
  The result is the pair of errors and warnings, or the exception that a rule raised; only
  the exceptions of reading and parsing are caught.
\<close>

definition validate_plugin_manifest ::
    "builtins \<Rightarrow> file_content \<Rightarrow> py_error + (pystr list \<times> pystr list)" where
  "validate_plugin_manifest B c = (case c of
       Malformed m \<Rightarrow> Inr ([u ''Invalid JSON: '' @ m], [])
     | Unreadable m \<Rightarrow> Inr ([u ''Error reading file: '' @ m], [])
     | Parsed data \<Rightarrow>
         then_do (missing_fields data REQUIRED_FIELDS) (\<lambda>e1.
         then_do (id_rule B data) (\<lambda>e2.
         then_do (version_rule B data) (\<lambda>w1.
         then_do (category_rule B data) (\<lambda>e3.
         then_do (description_rule data) (\<lambda>w2.
         then_do (name_rule data) (\<lambda>e4.
         then_do (author_rule data) (\<lambda>w3.
           Inr (e1 @ e2 @ e3 @ e4, w1 @ w2 @ w3)))))))))"

text \<open>
  The lines that \<open>main\<close> prints with text from outside the script. Code points 128269,
  9888 with 65039, 10060 and 9989 are the magnifying glass, the warning sign, the cross and
  the check mark. The lines of the summary are ASCII and cannot raise.
\<close>

definition intro_line :: pystr where
  "intro_line = 128269 # u '' Validating plugin manifests...'' @ [10]"

definition missing_line :: "pystr \<Rightarrow> pystr" where
  "missing_line n = [9888, 65039] @ u ''  '' @ n @ u '': Missing plugin.json''"

definition errors_header :: "pystr \<Rightarrow> pystr" where
  "errors_header n = 10060 # u '' '' @ n @ u '':''"

definition error_line :: "pystr \<Rightarrow> pystr" where
  "error_line e = u ''   ERROR: '' @ e"

definition warnings_header :: "pystr \<Rightarrow> pystr" where
  "warnings_header n = [9888, 65039] @ u ''  '' @ n @ u '':''"

definition warning_line :: "pystr \<Rightarrow> pystr" where
  "warning_line w = u ''   WARNING: '' @ w"

definition valid_line :: "pystr \<Rightarrow> pystr" where
  "valid_line n = 9989 # u '' '' @ n @ u '': Valid''"

definition failed_line :: pystr where
  "failed_line = 10 # 10060 # u '' Validation failed!''"

definition passed_line :: pystr where
  "passed_line = 10 # 9989 # u '' All plugins are valid!''"

text \<open>
  The three blocks of the loop body after validation: the errors are printed and then
  added to \<open>all_errors\<close>, the warnings are printed and then added to \<open>all_warnings\<close>, and a
  directory with neither is reported valid.
\<close>

definition report_errors :: "builtins \<Rightarrow> pystr \<Rightarrow> pystr list \<Rightarrow> py_error + unit" where
  "report_errors B n errors =
     (if errors \<noteq> [] then print_all B (errors_header n # map error_line errors) else Inr ())"

definition report_warnings :: "builtins \<Rightarrow> pystr \<Rightarrow> pystr list \<Rightarrow> py_error + unit" where
  "report_warnings B n warnings =
     (if warnings \<noteq> [] then print_all B (warnings_header n # map warning_line warnings)
      else Inr ())"

definition report_valid ::
    "builtins \<Rightarrow> pystr \<Rightarrow> pystr list \<Rightarrow> pystr list \<Rightarrow> py_error + unit" where
  "report_valid B n errors warnings =
     (if errors = [] \<and> warnings = [] then print_text B (valid_line n) else Inr ())"

text \<open>
  \<open>main\<close>: the loop over the directory, then \<open>sys.exit\<close>. The loop ends with the two
  accumulated lists, and with the exception when a rule or a \<open>print\<close> raised one. An
  exception that no handler catches ends the interpreter with status 1.
\<close>

fun main_loop ::
    "builtins \<Rightarrow> fs_entry list \<Rightarrow> pystr list \<Rightarrow> pystr list
       \<Rightarrow> py_error option \<times> pystr list \<times> pystr list"
where
  "main_loop B [] all_errors all_warnings = (None, all_errors, all_warnings)"
| "main_loop B (File n # ds) all_errors all_warnings = main_loop B ds all_errors all_warnings"
| "main_loop B (Dir n None # ds) all_errors all_warnings =
     (case print_text B (missing_line n) of
        Inl e \<Rightarrow> (Some e, all_errors, all_warnings)
      | Inr _ \<Rightarrow>
          main_loop B ds all_errors (all_warnings @ [n @ u '': Missing plugin.json'']))"
| "main_loop B (Dir n (Some c) # ds) all_errors all_warnings =
     (case validate_plugin_manifest B c of
        Inl e \<Rightarrow> (Some e, all_errors, all_warnings)
      | Inr (errors, warnings) \<Rightarrow>
          (case report_errors B n errors of
             Inl e \<Rightarrow> (Some e, all_errors, all_warnings)
           | Inr _ \<Rightarrow>
               (case report_warnings B n warnings of
                  Inl e \<Rightarrow> (Some e, all_errors @ errors, all_warnings)
                | Inr _ \<Rightarrow>
                    (case report_valid B n errors warnings of
                       Inl e \<Rightarrow> (Some e, all_errors @ errors, all_warnings @ warnings)
                     | Inr _ \<Rightarrow>
                         main_loop B ds (all_errors @ errors) (all_warnings @ warnings)))))"

datatype run =
    Exit nat "pystr list" "pystr list"
  | Uncaught py_error "pystr list" "pystr list"

definition main :: "builtins \<Rightarrow> plugins_root \<Rightarrow> run" where
  "main B plugins_dir =
     (case print_text B intro_line of
        Inl e \<Rightarrow> Uncaught e [] []
      | Inr _ \<Rightarrow>
          (case plugins_dir of
             None \<Rightarrow> Uncaught FileNotFoundError [] []
           | Some ds \<Rightarrow>
               (case main_loop B ds [] [] of
                  (Some e, all_errors, all_warnings) \<Rightarrow> Uncaught e all_errors all_warnings
                | (None, all_errors, all_warnings) \<Rightarrow>
                    if all_errors \<noteq> [] then
                      (case print_text B failed_line of
                         Inl e \<Rightarrow> Uncaught e all_errors all_warnings
                       | Inr _ \<Rightarrow> Exit 1 all_errors all_warnings)
                    else
                      (case print_text B passed_line of
                         Inl e \<Rightarrow> Uncaught e all_errors all_warnings
                       | Inr _ \<Rightarrow> Exit 0 all_errors all_warnings))))"

fun exit_status :: "run \<Rightarrow> nat" where
  "exit_status (Exit c es ws) = c"
| "exit_status (Uncaught e es ws) = 1"


fun recorded_warnings :: "run \<Rightarrow> pystr list" where
  "recorded_warnings (Exit c es ws) = ws"
| "recorded_warnings (Uncaught e es ws) = ws"

section \<open>Manifests that follow the data model\<close>

definition is_str :: "json \<Rightarrow> bool" where
  "is_str v = (case v of JStr s \<Rightarrow> True | _ \<Rightarrow> False)"

text \<open>
  A manifest is a JSON object whose \<open>id\<close>, \<open>version\<close>, \<open>description\<close>, \<open>name\<close> and
  \<open>author\<close>, where present, are strings.
\<close>

definition string_fields :: "json \<Rightarrow> bool" where
  "string_fields data = (case data of
       JObj kvs \<Rightarrow>
         list_all (\<lambda>k. case map_of kvs k of None \<Rightarrow> True | Some v \<Rightarrow> is_str v)
           [u ''id'', u ''version'', u ''description'', u ''name'', u ''author'']
     | _ \<Rightarrow> False)"

text \<open>A directory entry that the validator handles without type errors.\<close>

fun typed_entry :: "fs_entry \<Rightarrow> bool" where
  "typed_entry (Dir n (Some (Parsed data))) = string_fields data"
| "typed_entry d = True"







text \<open>
  An environment for concrete runs: both streams are encoded in UTF-8, which accepts every
  code point but the surrogates; the runs do not reach the other parameters.
\<close>

definition no_builtins :: builtins where
  "no_builtins = \<lparr> str_of = (\<lambda>v. []), list_lt = (\<lambda>xs ys. Inl TypeError), int_ext = (\<lambda>s. False),
                   stdout_enc = (\<lambda>c. \<not> (55296 \<le> c \<and> c \<le> 57343)),
                   file_enc = (\<lambda>c. \<not> (55296 \<le> c \<and> c \<le> 57343)) \<rparr>"

definition lookup_str :: "(pystr \<times> json) list \<Rightarrow> pystr \<Rightarrow> bool" where
  "lookup_str kvs k = (case map_of kvs k of None \<Rightarrow> True | Some v \<Rightarrow> is_str v)"

section \<open>Diagnostics by kind\<close>

text \<open>
  The rule that \<open>validate_semver\<close> applies to a string: at least three segments between
  dots, the first three of which \<open>int()\<close> accepts.
\<close>

definition semver_ok :: "builtins \<Rightarrow> pystr \<Rightarrow> bool" where
  "semver_ok B v = (3 \<le> length (split_dot v) \<and> list_all (py_int B) (take 3 (split_dot v)))"

text \<open>A version diagnostic and a category diagnostic are recognised by how they start.\<close>

definition is_version_diag :: "pystr \<Rightarrow> bool" where
  "is_version_diag m = prefix (u ''Version '') m"

definition is_category_diag :: "pystr \<Rightarrow> bool" where
  "is_category_diag m = prefix (u ''Invalid category: '') m"

text \<open>
  The rule as the specification words it, on ASCII text: at least three segments, the
  first three each an integer that is not negative. An accepted numeral is negative when a
  minus sign precedes a digit other than zero.
\<close>

definition spec_nonneg_int :: "pystr \<Rightarrow> bool" where
  "spec_nonneg_int s = (ascii_int s \<and>
     (case strip_ws s of
        [] \<Rightarrow> False
      | c # r \<Rightarrow> \<not> (c = 45 \<and> list_ex (\<lambda>d. 49 \<le> d \<and> d \<le> 57) r)))"

definition spec_version_rule :: "pystr \<Rightarrow> bool" where
  "spec_version_rule v =
     (3 \<le> length (split_dot v) \<and> list_all spec_nonneg_int (take 3 (split_dot v)))"

section \<open>Manifests that the registry builder loads\<close>

text \<open>
  \<open>load_plugin_manifest\<close> returns on a JSON object whose \<open>links\<close> and \<open>requires\<close>, where
  present, are objects and whose \<open>tags\<close>, where present, can be iterated.
\<close>

definition obj_or_absent :: "(pystr \<times> json) list \<Rightarrow> pystr \<Rightarrow> bool" where
  "obj_or_absent kvs k = (case map_of kvs k of None \<Rightarrow> True | Some (JObj l) \<Rightarrow> True | _ \<Rightarrow> False)"

definition loadable :: "(pystr \<times> json) list \<Rightarrow> bool" where
  "loadable kvs = (obj_or_absent kvs (u ''links'') \<and> obj_or_absent kvs (u ''requires'')
     \<and> (case declared_tags kvs of Inr ts \<Rightarrow> True | Inl e \<Rightarrow> False))"

text \<open>The value of \<open>links.homepage\<close>, when the manifest declares one.\<close>

definition declared_homepage :: "(pystr \<times> json) list \<Rightarrow> json option" where
  "declared_homepage kvs = (case map_of kvs (u ''links'') of
       Some (JObj l) \<Rightarrow> map_of l (u ''homepage'')
     | _ \<Rightarrow> None)"

text \<open>The entry built from the values that the lookups gave.\<close>

definition entry_of :: "builtins \<Rightarrow> pystr \<Rightarrow> (pystr \<times> json) list \<Rightarrow> json \<Rightarrow> json \<Rightarrow> json \<Rightarrow> json \<Rightarrow> json list \<Rightarrow> entry" where
  "entry_of B slug kvs hp mv dk po ts =
      \<lparr> plugin_id = dict_get kvs (u ''id'') JNull,
        name = dict_get kvs (u ''name'') JNull,
        version = dict_get kvs (u ''version'') (JStr (u ''1.0.0'')),
        author = dict_get kvs (u ''author'') JNull,
        description = dict_get kvs (u ''description'') JNull,
        icon = dict_get kvs (u ''icon'') (JStr [128268]),
        category = dict_get kvs (u ''category'') (JStr (u ''utilities'')),
        repository_url = REPO_URL @ u ''/tree/main/plugins/'' @ slug,
        download_url = REPO_URL @ u ''/releases/download/'' @ slug @ u ''-v''
            @ fstr B (dict_get kvs (u ''version'') (JStr (u ''1.0.0'')))
            @ u ''/'' @ slug @ u ''-v''
            @ fstr B (dict_get kvs (u ''version'') (JStr (u ''1.0.0''))) @ u ''.tar.gz'',
        homepage = hp, min_nas_version = mv, require_docker = dk, required_ports = po,
        screenshots = [],
        tags = dict_get kvs (u ''category'') (JStr (u ''utilities'')) # ts \<rparr>"

section \<open>Valid manifests and sorted registries\<close>

text \<open>The name of an entry as a string, and the entries whose name is one.\<close>

definition name_str :: "entry \<Rightarrow> pystr" where
  "name_str e = (case name e of JStr s \<Rightarrow> s | _ \<Rightarrow> [])"

definition str_named :: "entry \<Rightarrow> bool" where
  "str_named e = is_str (name e)"

text \<open>
  A manifest that is valid for the registry and loads: a JSON object that
  \<open>load_plugin_manifest\<close> accepts and that holds a name and a version, both strings.
\<close>

definition valid_and_loads :: "manifest_file \<Rightarrow> bool" where
  "valid_and_loads mf = (case snd mf of
       Parsed (JObj kvs) \<Rightarrow>
         loadable kvs \<and> lookup_str kvs (u ''name'') \<and> map_of kvs (u ''name'') \<noteq> None
         \<and> lookup_str kvs (u ''version'') \<and> map_of kvs (u ''version'') \<noteq> None
     | _ \<Rightarrow> False)"

text \<open>
  The URLs of an entry follow the templates for the directory name of a manifest and for
  the version string that the manifest holds.
\<close>

definition own_urls :: "manifest_file \<Rightarrow> entry \<Rightarrow> bool" where
  "own_urls m e = (case snd m of
       Parsed (JObj kvs) \<Rightarrow>
         (case map_of kvs (u ''version'') of
            Some (JStr v) \<Rightarrow>
              version e = JStr v
              \<and> repository_url e = REPO_URL @ u ''/tree/main/plugins/'' @ fst m
              \<and> download_url e = REPO_URL @ u ''/releases/download/'' @ fst m @ u ''-v'' @ v
                                   @ u ''/'' @ fst m @ u ''-v'' @ v @ u ''.tar.gz''
          | _ \<Rightarrow> False)
     | _ \<Rightarrow> False)"

text \<open>
  The texts of a manifest can be written: the encoder of the console accepts the line
  that reports its entry, and the encoder of the file accepts the strings of the entry.
\<close>

definition output_ok :: "builtins \<Rightarrow> manifest_file \<Rightarrow> bool" where
  "output_ok B m = (case load_plugin_manifest B m of
       Inr e \<Rightarrow> enc_ok (stdout_enc B) (line_text B (Loaded (name e) (version e)))
                \<and> enc_ok (file_enc B) (entry_points e)
     | Inl err \<Rightarrow> False)"

section \<open>Concrete manifests\<close>

text \<open>
  The manifest of the specification's first scenario, with the version and the category
  left open.
\<close>

definition acme :: "json \<Rightarrow> json \<Rightarrow> (pystr \<times> json) list" where
  "acme ver cat =
     [(u ''id'', JStr (u ''com.acme.tool'')), (u ''name'', JStr (u ''Tool'')),
      (u ''version'', ver), (u ''author'', JStr (u ''Acme'')),
      (u ''description'', JStr (replicate 25 65)), (u ''icon'', JStr [128295]),
      (u ''category'', cat)]"

text \<open>The same manifest with two declared tags.\<close>

definition tagged :: "(pystr \<times> json) list" where
  "tagged = acme (JStr (u ''1.2.3'')) (JStr (u ''utilities''))
              @ [(u ''tags'', JArr [JStr (u ''cli''), JStr (u ''backup'')])]"

text \<open>
  The manifest with one declared tag that is a lone surrogate, which \<open>json.load\<close> reads
  from the escape \<open>\\ud800\<close>.
\<close>

definition surrogate_tag :: "(pystr \<times> json) list" where
  "surrogate_tag = acme (JStr (u ''1.2.3'')) (JStr (u ''utilities''))
                     @ [(u ''tags'', JArr [JStr [55296]])]"


text \<open>A listing with two plugins, out of order, and a plain file.\<close>

definition two_plugins :: "fs_entry list" where
  "two_plugins =
     [Dir (u ''zeta'') (Some (Parsed (JObj [(u ''name'', JStr (u ''Zeta'')), (u ''version'', JStr (u ''2.0.0''))]))),
      File (u ''README.md''),
      Dir (u ''alpha'') (Some (Parsed (JObj [(u ''name'', JStr (u ''Alpha'')), (u ''version'', JStr (u ''1.2.3''))])))]"

section \<open>Printing\<close>

lemma then_do_Inr: "then_do r f = Inr y \<Longrightarrow> \<exists>x. r = Inr x \<and> f x = Inr y"
  by (cases r) (simp_all add: then_do_def)

lemma then_do_Inr_simp: "then_do (Inr x) f = f x"
  by (simp add: then_do_def)

lemma print_text_ok: "enc_ok (stdout_enc B) s \<Longrightarrow> print_text B s = Inr ()"
  by (simp add: print_text_def)


lemma enc_ok_append: "enc_ok enc (a @ b) = (enc_ok enc a \<and> enc_ok enc b)"
  by (simp add: enc_ok_def)

lemma enc_ok_dec: "enc_ok enc (dec n)"
proof (induction n rule: dec.induct)
  case (1 n)
  show ?case
  proof (cases "n < 10")
    case True
    then show ?thesis by (subst dec.simps) (simp add: enc_ok_def)
  next
    case False
    with 1 have "enc_ok enc (dec (n div 10))" by simp
    moreover have "48 + n mod 10 < 128" by (simp add: less_le_trans [OF mod_less_divisor])
    ultimately show ?thesis using False by (subst dec.simps) (simp add: enc_ok_def)
  qed
qed

lemma utf8_ok:
  "list_all (\<lambda>c. \<not> (55296 \<le> c \<and> c \<le> 57343)) s \<Longrightarrow> enc_ok (stdout_enc no_builtins) s"
  "list_all (\<lambda>c. \<not> (55296 \<le> c \<and> c \<le> 57343)) s \<Longrightarrow> enc_ok (file_enc no_builtins) s"
  by (induction s) (simp_all add: enc_ok_def no_builtins_def)

section \<open>The validator's loop\<close>

lemma main_loop_keeps_errors:
  "main_loop B ds es ws = (r, es', ws') \<Longrightarrow> es \<noteq> [] \<Longrightarrow> es' \<noteq> []"
  by (induction B ds es ws rule: main_loop.induct) (auto split: sum.splits prod.splits)

lemma main_loop_malformed:
  "main_loop B ds es ws = (None, es', ws') \<Longrightarrow> Dir n (Some (Malformed m)) \<in> set ds
     \<Longrightarrow> es' \<noteq> []"
proof (induction B ds es ws rule: main_loop.induct)
  case (4 B n' c ds all_errors all_warnings)
  show ?case
  proof (cases "validate_plugin_manifest B c")
    case (Inl e)
    with 4 show ?thesis by simp
  next
    case (Inr p)
    obtain errors warnings where p: "p = (errors, warnings)" by (cases p)
    from "4.prems"(1) Inr p have
      l: "main_loop B ds (all_errors @ errors) (all_warnings @ warnings) = (None, es', ws')"
      and pr: "report_errors B n' errors = Inr ()" "report_warnings B n' warnings = Inr ()"
              "report_valid B n' errors warnings = Inr ()"
      by (auto split: sum.splits)
    show ?thesis
    proof (cases "c = Malformed m")
      case True
      with Inr p have "errors \<noteq> []" by (auto simp: validate_plugin_manifest_def)
      with l show ?thesis by (auto dest: main_loop_keeps_errors)
    next
      case False
      with "4.prems"(2) have "Dir n (Some (Malformed m)) \<in> set ds" by auto
      from "4.IH" Inr p pr l this show ?thesis by simp
    qed
  qed
next
  case (3 B n' ds all_errors all_warnings)
  then show ?case by (auto split: sum.splits)
qed auto

text \<open>
  C10. A \<open>plugin.json\<close> that is not well-formed JSON gives exactly one error, the
  invalid-JSON message with the parser's message, and no warning; no field rule runs on
  it. A run over a directory listing that contains such a plugin ends with a non-zero
  status.
\<close>

theorem malformed_json_one_error:
  "validate_plugin_manifest B (Malformed m) = Inr ([u ''Invalid JSON: '' @ m], [])
   \<and> (\<forall>ds n. Dir n (Some (Malformed m)) \<in> set ds \<longrightarrow> exit_status (main B (Some ds)) \<noteq> 0)"
proof (intro conjI allI impI)
  show "validate_plugin_manifest B (Malformed m) = Inr ([u ''Invalid JSON: '' @ m], [])"
    by (simp add: validate_plugin_manifest_def)
next
  fix ds n
  assume d: "Dir n (Some (Malformed m)) \<in> set ds"
  obtain r es ws where l: "main_loop B ds [] [] = (r, es, ws)"
    by (cases "main_loop B ds [] []")
  show "exit_status (main B (Some ds)) \<noteq> 0"
  proof (cases r)
    case None
    with l d have "es \<noteq> []" by (auto dest: main_loop_malformed)
    with l None show ?thesis by (simp add: main_def split: sum.splits)
  next
    case (Some e)
    with l show ?thesis by (simp add: main_def split: sum.splits)
  qed
qed

theorem malformed_json_one_error_witness:
  "Dir (u ''p'') (Some (Malformed (u ''Expecting value'')))
     \<in> set [Dir (u ''p'') (Some (Malformed (u ''Expecting value'')))]
   \<and> exit_status (main no_builtins
         (Some [Dir (u ''p'') (Some (Malformed (u ''Expecting value'')))])) \<noteq> 0
   \<and> main no_builtins (Some [Dir (u ''p'') (Some (Malformed (u ''Expecting value'')))])
       = Exit 1 [u ''Invalid JSON: Expecting value''] []"
  using malformed_json_one_error [of no_builtins "u ''Expecting value''"]
  by (simp add: main_def validate_plugin_manifest_def u_def print_text_def enc_ok_def
      no_builtins_def intro_line_def failed_line_def errors_header_def error_line_def
      report_errors_def report_warnings_def report_valid_def then_do_def)

section \<open>The rules on a manifest that follows the data model\<close>

lemma field_obj: "field (JObj kvs) k = Inr (map_of kvs k)"
  by (cases "map_of kvs k") (simp_all add: field_def py_in_def py_getitem_def then_do_def)

lemma missing_fields_obj:
  "missing_fields (JObj kvs) fs =
     Inr (map (\<lambda>f. u ''Missing required field: '' @ f) (filter (\<lambda>f. map_of kvs f = None) fs))"
  by (induction fs) (simp_all add: py_in_def then_do_def)

lemma is_strE: "is_str v \<Longrightarrow> (\<And>s. v = JStr s \<Longrightarrow> P) \<Longrightarrow> P"
  by (cases v) (simp_all add: is_str_def)

lemma string_fields_obj:
  "string_fields (JObj kvs) = (lookup_str kvs (u ''id'') \<and> lookup_str kvs (u ''version'')
     \<and> lookup_str kvs (u ''description'') \<and> lookup_str kvs (u ''name'') \<and> lookup_str kvs (u ''author''))"
  by (simp add: string_fields_def lookup_str_def)

lemma validate_plugin_id_str: "validate_plugin_id (JStr s) = Inr (3 \<le> length (split_dot s))"
  by (cases s) (simp_all add: validate_plugin_id_def truthy_def)

lemma id_rule_returns:
  "lookup_str kvs (u ''id'') \<Longrightarrow>
     \<exists>e. id_rule B (JObj kvs) = Inr e \<and> (\<forall>m\<in>set e. prefix (u ''Invalid plugin ID format: '') m)"
  by (auto simp: id_rule_def field_obj lookup_str_def validate_plugin_id_str then_do_def
           split: option.splits elim!: is_strE)

lemma validate_semver_str: "validate_semver B (JStr v) = Inr (semver_ok B v)"
  by (auto simp: validate_semver_def semver_ok_def Let_def)

lemma version_rule_str:
  "map_of kvs (u ''version'') = Some (JStr v) \<Longrightarrow>
     version_rule B (JObj kvs) = Inr (if semver_ok B v then [] else [version_warning B (JStr v)])"
  by (simp add: version_rule_def field_obj validate_semver_str then_do_def)

lemma version_rule_returns:
  "lookup_str kvs (u ''version'') \<Longrightarrow>
     \<exists>w. version_rule B (JObj kvs) = Inr w \<and> (\<forall>m\<in>set w. prefix (u ''Version '') m)"
  by (auto simp: version_rule_def field_obj lookup_str_def validate_semver_str then_do_def
                 version_warning_def
           split: option.splits elim!: is_strE)

lemma category_rule_obj:
  "category_rule B (JObj kvs) = Inr (case map_of kvs (u ''category'') of
       None \<Rightarrow> []
     | Some v \<Rightarrow> if in_categories v then [] else [category_error B v])"
  by (simp add: category_rule_def field_obj then_do_def split: option.splits)

lemma description_msg_prefix:
  "prefix (u ''Description is very '') (u ''Description is very short ('' @ x)"
  "prefix (u ''Description is very '') (u ''Description is very long ('' @ x)"
  by (simp_all add: u_def)

lemma description_rule_returns:
  "lookup_str kvs (u ''description'') \<Longrightarrow>
     \<exists>w. description_rule (JObj kvs) = Inr w \<and> (\<forall>m\<in>set w. prefix (u ''Description is very '') m)"
  by (auto simp: description_rule_def field_obj lookup_str_def py_len_def then_do_def
                 description_msg_prefix
           split: option.splits elim!: is_strE)

lemma name_rule_returns:
  "lookup_str kvs (u ''name'') \<Longrightarrow>
     \<exists>e. name_rule (JObj kvs) = Inr e \<and> (\<forall>m\<in>set e. m = u ''Plugin name is too short'')"
  by (auto simp: name_rule_def field_obj lookup_str_def py_len_def then_do_def
           split: option.splits elim!: is_strE)

lemma author_msg_prefix:
  "prefix (u ''Author field '')
     (u ''Author field should not contain email (use links section instead)'')"
  by (simp add: u_def)

lemma author_rule_returns:
  "lookup_str kvs (u ''author'') \<Longrightarrow>
     \<exists>w. author_rule (JObj kvs) = Inr w \<and> (\<forall>m\<in>set w. prefix (u ''Author field '') m)"
  by (auto simp: author_rule_def field_obj lookup_str_def py_in_def then_do_def author_msg_prefix
           split: option.splits elim!: is_strE)

lemma validate_typed:
  assumes "string_fields (JObj kvs)"
  obtains e1 e2 e3 e4 w1 w2 w3 where
    "validate_plugin_manifest B (Parsed (JObj kvs)) = Inr (e1 @ e2 @ e3 @ e4, w1 @ w2 @ w3)"
    "\<forall>m\<in>set e1. prefix (u ''Missing required field: '') m"
    "\<forall>m\<in>set e2. prefix (u ''Invalid plugin ID format: '') m"
    "category_rule B (JObj kvs) = Inr e3"
    "\<forall>m\<in>set e4. m = u ''Plugin name is too short''"
    "version_rule B (JObj kvs) = Inr w1"
    "\<forall>m\<in>set w2. prefix (u ''Description is very '') m"
    "\<forall>m\<in>set w3. prefix (u ''Author field '') m"
proof -
  from assms have s: "lookup_str kvs (u ''id'')" "lookup_str kvs (u ''version'')"
    "lookup_str kvs (u ''description'')" "lookup_str kvs (u ''name'')" "lookup_str kvs (u ''author'')"
    by (simp_all add: string_fields_obj)
  obtain e1 where e1: "missing_fields (JObj kvs) REQUIRED_FIELDS = Inr e1"
      "\<forall>m\<in>set e1. prefix (u ''Missing required field: '') m"
    by (auto simp: missing_fields_obj)
  from id_rule_returns [OF s(1)] obtain e2 where e2: "id_rule B (JObj kvs) = Inr e2"
      "\<forall>m\<in>set e2. prefix (u ''Invalid plugin ID format: '') m" by blast
  from version_rule_returns [OF s(2)] obtain w1 where w1: "version_rule B (JObj kvs) = Inr w1"
    by blast
  obtain e3 where e3: "category_rule B (JObj kvs) = Inr e3" by (simp add: category_rule_obj)
  from description_rule_returns [OF s(3)] obtain w2 where w2: "description_rule (JObj kvs) = Inr w2"
      "\<forall>m\<in>set w2. prefix (u ''Description is very '') m" by blast
  from name_rule_returns [OF s(4)] obtain e4 where e4: "name_rule (JObj kvs) = Inr e4"
      "\<forall>m\<in>set e4. m = u ''Plugin name is too short''" by blast
  from author_rule_returns [OF s(5)] obtain w3 where w3: "author_rule (JObj kvs) = Inr w3"
      "\<forall>m\<in>set w3. prefix (u ''Author field '') m" by blast
  have "validate_plugin_manifest B (Parsed (JObj kvs)) = Inr (e1 @ e2 @ e3 @ e4, w1 @ w2 @ w3)"
    by (simp add: validate_plugin_manifest_def then_do_def e1 e2 e3 e4 w1 w2 w3)
  then show thesis
    using e1(2) e2(2) e3 e4(2) w1 w2(2) w3(2) by (rule that)
qed

lemma category_msg_prefix: "prefix (u ''Invalid category: '') (category_error B v)"
  by (simp add: category_error_def)

lemma category_rule_msgs:
  "category_rule B (JObj kvs) = Inr e \<Longrightarrow> m \<in> set e \<Longrightarrow> prefix (u ''Invalid category: '') m"
  by (auto simp: category_rule_obj category_msg_prefix split: option.splits if_splits)

lemma version_rule_msgs:
  "version_rule B data = Inr w \<Longrightarrow> m \<in> set w \<Longrightarrow> prefix (u ''Version '') m"
  by (auto simp: version_rule_def then_do_def version_warning_def
           split: sum.splits option.splits if_splits)

lemma missing_fields_msgs:
  "missing_fields (JObj kvs) fs = Inr e \<Longrightarrow> m \<in> set e
     \<Longrightarrow> prefix (u ''Missing required field: '') m"
  by (auto simp: missing_fields_obj)

lemma id_rule_msgs:
  "id_rule B data = Inr e \<Longrightarrow> m \<in> set e \<Longrightarrow> prefix (u ''Invalid plugin ID format: '') m"
  by (auto simp: id_rule_def then_do_def split: sum.splits option.splits if_splits)

lemma description_rule_msgs:
  "description_rule data = Inr w \<Longrightarrow> m \<in> set w \<Longrightarrow> prefix (u ''Description is very '') m"
  by (auto simp: description_rule_def then_do_def description_msg_prefix
           split: sum.splits option.splits if_splits)

lemma name_rule_msgs:
  "name_rule data = Inr e \<Longrightarrow> m \<in> set e \<Longrightarrow> m = u ''Plugin name is too short''"
  by (auto simp: name_rule_def then_do_def split: sum.splits option.splits if_splits)

lemma author_rule_msgs:
  "author_rule data = Inr w \<Longrightarrow> m \<in> set w \<Longrightarrow> prefix (u ''Author field '') m"
  by (auto simp: author_rule_def then_do_def author_msg_prefix
           split: sum.splits option.splits if_splits)

lemma validate_Inr:
  assumes "validate_plugin_manifest B (Parsed data) = Inr (errs, warns)"
  obtains e1 e2 e3 e4 w1 w2 w3 where
    "errs = e1 @ e2 @ e3 @ e4" "warns = w1 @ w2 @ w3"
    "missing_fields data REQUIRED_FIELDS = Inr e1"
    "id_rule B data = Inr e2"
    "version_rule B data = Inr w1"
    "category_rule B data = Inr e3"
    "description_rule data = Inr w2"
    "name_rule data = Inr e4"
    "author_rule data = Inr w3"
  using assms
  by (auto simp: validate_plugin_manifest_def then_do_def split: sum.splits)

lemma clash: "prefix a m \<Longrightarrow> prefix b m \<Longrightarrow> \<not> prefix a b \<Longrightarrow> \<not> prefix b a \<Longrightarrow> False"
  using prefix_same_cases by blast

lemma not_version_diag:
  "prefix (u ''Missing required field: '') m \<Longrightarrow> \<not> is_version_diag m"
  "prefix (u ''Invalid plugin ID format: '') m \<Longrightarrow> \<not> is_version_diag m"
  "prefix (u ''Invalid category: '') m \<Longrightarrow> \<not> is_version_diag m"
  "prefix (u ''Description is very '') m \<Longrightarrow> \<not> is_version_diag m"
  "prefix (u ''Author field '') m \<Longrightarrow> \<not> is_version_diag m"
  unfolding is_version_diag_def
  by (rule notI, erule (1) clash, simp add: u_def, simp add: u_def)+

lemma name_not_version_diag: "\<not> is_version_diag (u ''Plugin name is too short'')"
  by (simp add: is_version_diag_def u_def)

lemma not_category_diag:
  "prefix (u ''Missing required field: '') m \<Longrightarrow> \<not> is_category_diag m"
  "prefix (u ''Invalid plugin ID format: '') m \<Longrightarrow> \<not> is_category_diag m"
  "prefix (u ''Version '') m \<Longrightarrow> \<not> is_category_diag m"
  "prefix (u ''Description is very '') m \<Longrightarrow> \<not> is_category_diag m"
  "prefix (u ''Author field '') m \<Longrightarrow> \<not> is_category_diag m"
  unfolding is_category_diag_def
  by (rule notI, erule (1) clash, simp add: u_def, simp add: u_def)+

lemma name_not_category_diag: "\<not> is_category_diag (u ''Plugin name is too short'')"
  by (simp add: is_category_diag_def u_def)

lemma filter_none: "(\<And>m. m \<in> set xs \<Longrightarrow> \<not> P m) \<Longrightarrow> filter P xs = []"
  by (induction xs) auto

lemma acme_string_fields: "string_fields (JObj (acme (JStr v) c))"
  by (simp add: string_fields_def acme_def u_def is_str_def)

lemma acme_version: "map_of (acme ver c) (u ''version'') = Some ver"
  by (simp add: acme_def u_def)

lemma acme_category: "map_of (acme ver c) (u ''category'') = Some c"
  by (simp add: acme_def u_def)

text \<open>
  C4, as amended. On a manifest that follows the data model and holds a version string,
  validation returns, and its warnings hold the version warning, once, exactly when the
  version does not split at the dots into at least three segments of which \<open>int()\<close> accepts
  each of the first three; \<open>int()\<close> accepts a sign, white space around the numeral and
  underscores between digits. The errors never hold a version diagnostic, and a version
  that passes the rule gives none at all.
\<close>

theorem version_warning_iff_not_semver:
  assumes "string_fields (JObj kvs)" and "map_of kvs (u ''version'') = Some (JStr v)"
  shows "\<exists>errs warns. validate_plugin_manifest B (Parsed (JObj kvs)) = Inr (errs, warns)
            \<and> filter is_version_diag warns
                = (if semver_ok B v then [] else [version_warning B (JStr v)])
            \<and> filter is_version_diag errs = []"
proof -
  from assms(1) obtain e1 e2 e3 e4 w1 w2 w3 where
    r: "validate_plugin_manifest B (Parsed (JObj kvs)) = Inr (e1 @ e2 @ e3 @ e4, w1 @ w2 @ w3)"
    and e1: "\<forall>m\<in>set e1. prefix (u ''Missing required field: '') m"
    and e2: "\<forall>m\<in>set e2. prefix (u ''Invalid plugin ID format: '') m"
    and e3: "category_rule B (JObj kvs) = Inr e3"
    and e4: "\<forall>m\<in>set e4. m = u ''Plugin name is too short''"
    and w1: "version_rule B (JObj kvs) = Inr w1"
    and w2: "\<forall>m\<in>set w2. prefix (u ''Description is very '') m"
    and w3: "\<forall>m\<in>set w3. prefix (u ''Author field '') m"
    by (rule validate_typed)
  have f1: "filter is_version_diag e1 = []" using e1 by (intro filter_none) (auto dest: not_version_diag)
  have f2: "filter is_version_diag e2 = []" using e2 by (intro filter_none) (auto dest: not_version_diag)
  have f3: "filter is_version_diag e3 = []"
    using category_rule_msgs [OF e3] by (intro filter_none) (auto dest: not_version_diag)
  have f4: "filter is_version_diag e4 = []" using e4 by (intro filter_none) (auto simp: name_not_version_diag)
  have g2: "filter is_version_diag w2 = []" using w2 by (intro filter_none) (auto dest: not_version_diag)
  have g3: "filter is_version_diag w3 = []" using w3 by (intro filter_none) (auto dest: not_version_diag)
  have w1': "w1 = (if semver_ok B v then [] else [version_warning B (JStr v)])"
    using w1 version_rule_str [OF assms(2), of B] by simp
  have g1: "filter is_version_diag w1 = w1"
    by (simp add: w1' is_version_diag_def version_warning_def)
  show ?thesis
    using r f1 f2 f3 f4 g1 g2 g3 w1' by simp
qed

theorem version_warning_iff_not_semver_witness:
  "string_fields (JObj (acme (JStr (u ''1.2'')) (JStr (u ''utilities''))))
   \<and> map_of (acme (JStr (u ''1.2'')) (JStr (u ''utilities''))) (u ''version'') = Some (JStr (u ''1.2''))
   \<and> (\<exists>errs warns.
         validate_plugin_manifest no_builtins
           (Parsed (JObj (acme (JStr (u ''1.2'')) (JStr (u ''utilities''))))) = Inr (errs, warns)
         \<and> filter is_version_diag warns = [version_warning no_builtins (JStr (u ''1.2''))]
         \<and> filter is_version_diag errs = [])"
proof -
  have n: "\<not> semver_ok no_builtins (u ''1.2'')"
    by (simp add: semver_ok_def u_def)
  show ?thesis
    using version_warning_iff_not_semver [where B = no_builtins,
        OF acme_string_fields acme_version, of "u ''1.2''" "JStr (u ''utilities'')"] n
    by (simp add: acme_string_fields acme_version)
qed

text \<open>
  The version \<open>-1.2.3\<close> has a first segment that is a negative integer, so the rule as
  the specification words it rejects it; the validator gives no warning and no error.
\<close>

theorem negative_version_counterexample:
  "\<not> spec_version_rule (u ''-1.2.3'')
   \<and> validate_plugin_manifest no_builtins
       (Parsed (JObj (acme (JStr (u ''-1.2.3'')) (JStr (u ''utilities''))))) = Inr ([], [])"
  by (simp add: spec_version_rule_def spec_nonneg_int_def ascii_int_def strip_ws_def is_ws_def is_digit_def validate_plugin_manifest_def acme_def REQUIRED_FIELDS_def then_do_def py_in_def id_rule_def field_def py_getitem_def validate_plugin_id_def truthy_def version_rule_def validate_semver_def py_int_def plain_ascii_def category_rule_def in_categories_def VALID_CATEGORIES_def description_rule_def py_len_def name_rule_def author_rule_def u_def Let_def sublist_Cons_right)

lemma in_categories_iff: "in_categories c \<longleftrightarrow> c \<in> JStr ` set VALID_CATEGORIES"
  by (cases c) (auto simp: in_categories_def)

text \<open>
  C5, as amended. On a manifest that is a JSON object and holds a category: whenever
  validation returns, its errors hold exactly one category error when the value is not one
  of the nine valid categories and none when it is, and its warnings never hold one; it
  returns on every manifest that follows the data model; and the message of the error
  lists the nine categories in full.
\<close>

theorem category_error_iff_not_member:
  assumes "map_of kvs (u ''category'') = Some c"
  shows "(\<forall>errs warns. validate_plugin_manifest B (Parsed (JObj kvs)) = Inr (errs, warns) \<longrightarrow>
            filter is_category_diag errs
              = (if c \<in> JStr ` set VALID_CATEGORIES then [] else [category_error B c])
            \<and> filter is_category_diag warns = [])
         \<and> (string_fields (JObj kvs) \<longrightarrow>
              (\<exists>errs warns. validate_plugin_manifest B (Parsed (JObj kvs)) = Inr (errs, warns)))
         \<and> category_error B c = u ''Invalid category: '' @ fstr B c @ u ''. Must be one of: storage, media, communication, development, monitoring, networking, productivity, security, utilities''
         \<and> length VALID_CATEGORIES = 9"
proof (intro conjI allI impI)
  fix errs warns
  assume "validate_plugin_manifest B (Parsed (JObj kvs)) = Inr (errs, warns)"
  then obtain e1 e2 e3 e4 w1 w2 w3 where
    errs: "errs = e1 @ e2 @ e3 @ e4" and warns: "warns = w1 @ w2 @ w3"
    and e1: "missing_fields (JObj kvs) REQUIRED_FIELDS = Inr e1"
    and e2: "id_rule B (JObj kvs) = Inr e2"
    and w1: "version_rule B (JObj kvs) = Inr w1"
    and e3: "category_rule B (JObj kvs) = Inr e3"
    and w2: "description_rule (JObj kvs) = Inr w2"
    and e4: "name_rule (JObj kvs) = Inr e4"
    and w3: "author_rule (JObj kvs) = Inr w3"
    by (rule validate_Inr)
  have f1: "filter is_category_diag e1 = []"
    using missing_fields_msgs [OF e1] by (intro filter_none) (auto dest: not_category_diag)
  have f2: "filter is_category_diag e2 = []"
    using id_rule_msgs [OF e2] by (intro filter_none) (auto dest: not_category_diag)
  have f4: "filter is_category_diag e4 = []"
    by (intro filter_none) (auto dest!: name_rule_msgs [OF e4] simp: name_not_category_diag)
  have g1: "filter is_category_diag w1 = []"
    using version_rule_msgs [OF w1] by (intro filter_none) (auto dest: not_category_diag)
  have g2: "filter is_category_diag w2 = []"
    using description_rule_msgs [OF w2] by (intro filter_none) (auto dest: not_category_diag)
  have g3: "filter is_category_diag w3 = []"
    using author_rule_msgs [OF w3] by (intro filter_none) (auto dest: not_category_diag)
  have e3': "e3 = (if c \<in> JStr ` set VALID_CATEGORIES then [] else [category_error B c])"
    using e3 assms by (simp add: category_rule_obj in_categories_iff)
  have f3: "filter is_category_diag e3 = e3"
    by (simp add: e3' is_category_diag_def category_msg_prefix)
  show "filter is_category_diag errs
          = (if c \<in> JStr ` set VALID_CATEGORIES then [] else [category_error B c])"
    using errs f1 f2 f3 f4 e3' by simp
  show "filter is_category_diag warns = []"
    using warns g1 g2 g3 by simp
next
  assume "string_fields (JObj kvs)"
  then show "\<exists>errs warns. validate_plugin_manifest B (Parsed (JObj kvs)) = Inr (errs, warns)"
    by (rule validate_typed) blast
next
  show "category_error B c = u ''Invalid category: '' @ fstr B c @ u ''. Must be one of: storage, media, communication, development, monitoring, networking, productivity, security, utilities''"
    by (simp add: category_error_def VALID_CATEGORIES_def u_def)
next
  show "length VALID_CATEGORIES = 9" by (simp add: VALID_CATEGORIES_def)
qed

theorem category_error_iff_not_member_witness:
  "map_of (acme (JStr (u ''1.2.3'')) (JStr (u ''bogus''))) (u ''category'') = Some (JStr (u ''bogus''))
   \<and> string_fields (JObj (acme (JStr (u ''1.2.3'')) (JStr (u ''bogus''))))
   \<and> validate_plugin_manifest no_builtins
        (Parsed (JObj (acme (JStr (u ''1.2.3'')) (JStr (u ''bogus'')))))
       = Inr ([category_error no_builtins (JStr (u ''bogus''))], [])
   \<and> filter is_category_diag [category_error no_builtins (JStr (u ''bogus''))]
       = [category_error no_builtins (JStr (u ''bogus''))]
   \<and> category_error no_builtins (JStr (u ''bogus'')) = u ''Invalid category: bogus. Must be one of: storage, media, communication, development, monitoring, networking, productivity, security, utilities''
   \<and> length VALID_CATEGORIES = 9"
proof -
  let ?kvs = "acme (JStr (u ''1.2.3'')) (JStr (u ''bogus''))"
  have n: "JStr (u ''bogus'') \<notin> JStr ` set VALID_CATEGORIES"
    by (simp add: VALID_CATEGORIES_def u_def image_iff)
  have v: "validate_plugin_manifest no_builtins (Parsed (JObj ?kvs))
             = Inr ([category_error no_builtins (JStr (u ''bogus''))], [])"
    by (simp add: validate_plugin_manifest_def acme_def REQUIRED_FIELDS_def then_do_def
        py_in_def id_rule_def field_def py_getitem_def validate_plugin_id_def truthy_def
        version_rule_def validate_semver_def py_int_def plain_ascii_def ascii_int_def
        strip_ws_def is_ws_def is_digit_def category_rule_def in_categories_def
        VALID_CATEGORIES_def description_rule_def py_len_def name_rule_def author_rule_def
        u_def Let_def sublist_Cons_right)
  have m: "category_error no_builtins (JStr (u ''bogus'')) = u ''Invalid category: bogus. Must be one of: storage, media, communication, development, monitoring, networking, productivity, security, utilities''"
    by (simp add: category_error_def VALID_CATEGORIES_def fstr_def u_def)
  from category_error_iff_not_member [where B = no_builtins, OF acme_category,
      of "JStr (u ''1.2.3'')" "JStr (u ''bogus'')"] n v
  have "filter is_category_diag [category_error no_builtins (JStr (u ''bogus''))]
          = [category_error no_builtins (JStr (u ''bogus''))]"
    by (simp add: is_category_diag_def category_msg_prefix)
  with v m show ?thesis
    by (simp add: acme_string_fields acme_category VALID_CATEGORIES_def)
qed

text \<open>
  A manifest whose category is not valid and whose version is the number 1: the version
  rule raises before the category rule runs, and validation yields no category error.
\<close>

theorem numeric_version_bogus_category_counterexample:
  "map_of (acme (JInt 1) (JStr (u ''bogus''))) (u ''category'') = Some (JStr (u ''bogus''))
   \<and> JStr (u ''bogus'') \<notin> JStr ` set VALID_CATEGORIES
   \<and> validate_plugin_manifest no_builtins (Parsed (JObj (acme (JInt 1) (JStr (u ''bogus'')))))
       = Inl AttributeError"
  by (simp add: validate_plugin_manifest_def acme_def REQUIRED_FIELDS_def then_do_def py_in_def id_rule_def field_def py_getitem_def validate_plugin_id_def truthy_def version_rule_def validate_semver_def VALID_CATEGORIES_def u_def Let_def image_iff)

section \<open>The exit status of the validator\<close>







text \<open>
  A manifest that follows the data model may still end the run by an exception: a version
  that is a lone surrogate gives a version warning that the console encoded in UTF-8
  cannot print, so \<open>print\<close> raises before the warning is recorded.
\<close>

lemma surrogate_version_run:
  "typed_entry (Dir (u ''tool'') (Some (Parsed (JObj (acme (JStr [55296]) (JStr (u ''utilities'')))))))
   \<and> main no_builtins
        (Some [Dir (u ''tool'') (Some (Parsed (JObj (acme (JStr [55296]) (JStr (u ''utilities''))))))])
       = Uncaught UnicodeEncodeError [] []"
proof -
  have v: "validate_plugin_manifest no_builtins
      (Parsed (JObj (acme (JStr [55296]) (JStr (u ''utilities'')))))
      = Inr ([], [version_warning no_builtins (JStr [55296])])"
    by (simp add: validate_plugin_manifest_def acme_def REQUIRED_FIELDS_def then_do_def
        py_in_def id_rule_def field_def py_getitem_def validate_plugin_id_def truthy_def
        version_rule_def validate_semver_def category_rule_def in_categories_def
        VALID_CATEGORIES_def description_rule_def py_len_def name_rule_def author_rule_def
        u_def Let_def sublist_Cons_right)
  have "main no_builtins
        (Some [Dir (u ''tool'') (Some (Parsed (JObj (acme (JStr [55296]) (JStr (u ''utilities''))))))])
       = Uncaught UnicodeEncodeError [] []"
  proof -
    have i: "print_text no_builtins intro_line = Inr ()"
      by (simp add: intro_line_def print_text_def enc_ok_def no_builtins_def u_def)
    have w: "report_warnings no_builtins (u ''tool'')
               [version_warning no_builtins (JStr [55296])] = Inl UnicodeEncodeError"
      by (simp add: report_warnings_def version_warning_def fstr_def warnings_header_def
          warning_line_def print_text_def enc_ok_def then_do_def no_builtins_def u_def)
    show ?thesis by (simp add: main_def i v w report_errors_def)
  qed
  then show ?thesis by (simp add: acme_string_fields)
qed

section \<open>Entries of the registry\<close>

lemma u_append: "u (a @ b) = u a @ u b"
  by (simp add: u_def)

lemma get2_obj:
  "obj_or_absent kvs k1 \<Longrightarrow>
     get2 (JObj kvs) k1 k2 d = Inr (case map_of kvs k1 of Some (JObj l) \<Rightarrow> dict_get l k2 d | _ \<Rightarrow> d)"
  by (auto simp: get2_def py_get_def dict_get_def then_do_def obj_or_absent_def
           split: option.splits json.splits)

lemma get2_Inr: "get2 (JObj kvs) k1 k2 d = Inr x \<Longrightarrow> obj_or_absent kvs k1"
  by (auto simp: get2_def py_get_def dict_get_def then_do_def obj_or_absent_def
           split: option.splits json.splits)

lemma load_obj:
  "load_plugin_manifest B (slug, Parsed (JObj kvs)) =
     then_do (get2 (JObj kvs) (u ''links'') (u ''homepage'')
                (JStr (REPO_URL @ u ''/tree/main/plugins/'' @ slug))) (\<lambda>hp.
     then_do (get2 (JObj kvs) (u ''requires'') (u ''minNasVersion'') (JStr (u ''0.1.0''))) (\<lambda>mv.
     then_do (get2 (JObj kvs) (u ''requires'') (u ''docker'') (JBool False)) (\<lambda>dk.
     then_do (get2 (JObj kvs) (u ''requires'') (u ''ports'') (JArr [])) (\<lambda>po.
     then_do (declared_tags kvs) (\<lambda>ts. Inr (entry_of B slug kvs hp mv dk po ts))))))"
  unfolding load_plugin_manifest_def entry_of_def
  by (simp add: json_load_def py_get_def then_do_Inr_simp Let_def)

lemma load_returns:
  assumes "loadable kvs"
  shows "\<exists>mv dk po ts. declared_tags kvs = Inr ts \<and>
    load_plugin_manifest B (slug, Parsed (JObj kvs)) = Inr (entry_of B slug kvs
      (case map_of kvs (u ''links'') of
         Some (JObj l) \<Rightarrow> dict_get l (u ''homepage'')
                            (JStr (REPO_URL @ u ''/tree/main/plugins/'' @ slug))
       | _ \<Rightarrow> JStr (REPO_URL @ u ''/tree/main/plugins/'' @ slug))
      mv dk po ts)"
proof -
  from assms have l: "obj_or_absent kvs (u ''links'')" and r: "obj_or_absent kvs (u ''requires'')"
    by (simp_all add: loadable_def)
  from assms obtain ts where ts: "declared_tags kvs = Inr ts"
    by (auto simp: loadable_def split: sum.splits)
  show ?thesis
    unfolding load_obj get2_obj [OF l] get2_obj [OF r] ts then_do_Inr_simp by blast
qed

lemma load_Inr:
  assumes "load_plugin_manifest B mf = Inr e"
  shows "\<exists>kvs hp mv dk po ts. snd mf = Parsed (JObj kvs) \<and> loadable kvs
           \<and> declared_tags kvs = Inr ts \<and> e = entry_of B (fst mf) kvs hp mv dk po ts"
proof -
  from assms obtain data where d: "snd mf = Parsed data"
    by (cases "snd mf") (simp_all add: load_plugin_manifest_def json_load_def then_do_def)
  from assms d obtain kvs where k: "data = JObj kvs"
    by (cases data) (simp_all add: load_plugin_manifest_def json_load_def py_get_def then_do_def)
  from d k have mf: "mf = (fst mf, Parsed (JObj kvs))" by (cases mf) simp
  from assms have "load_plugin_manifest B (fst mf, Parsed (JObj kvs)) = Inr e"
    using mf by simp
  then obtain hp mv dk po ts where
    g1: "get2 (JObj kvs) (u ''links'') (u ''homepage'')
           (JStr (REPO_URL @ u ''/tree/main/plugins/'' @ fst mf)) = Inr hp"
    and g2: "get2 (JObj kvs) (u ''requires'') (u ''minNasVersion'') (JStr (u ''0.1.0'')) = Inr mv"
    and t: "declared_tags kvs = Inr ts"
    and e: "e = entry_of B (fst mf) kvs hp mv dk po ts"
    unfolding load_obj by (fastforce dest!: then_do_Inr)
  from g1 g2 t have "loadable kvs"
    by (simp add: loadable_def get2_Inr)
  with d k t e show ?thesis by blast
qed

text \<open>
  C7. Every entry that \<open>load_plugin_manifest\<close> returns has no screenshots, and its tags
  are its category, after the default, followed by what iterating the manifest's \<open>tags\<close>
  gives, in order: the elements of a JSON array, nothing when the field is absent.
\<close>

theorem entry_screenshots_tags:
  assumes "load_plugin_manifest B mf = Inr e"
  shows "screenshots e = []
    \<and> (\<exists>kvs ts. snd mf = Parsed (JObj kvs)
          \<and> category e = dict_get kvs (u ''category'') (JStr (u ''utilities''))
          \<and> (case map_of kvs (u ''tags'') of None \<Rightarrow> ts = [] | Some t \<Rightarrow> py_iter t = Inr ts)
          \<and> tags e = category e # ts)"
proof -
  from load_Inr [OF assms] obtain kvs hp mv dk po ts where
    p: "snd mf = Parsed (JObj kvs)" and t: "declared_tags kvs = Inr ts"
    and e: "e = entry_of B (fst mf) kvs hp mv dk po ts" by blast
  from t have "case map_of kvs (u ''tags'') of None \<Rightarrow> ts = [] | Some t \<Rightarrow> py_iter t = Inr ts"
    by (simp add: declared_tags_def split: option.splits)
  with p e show ?thesis by (auto simp: entry_of_def)
qed

lemma tagged_loadable: "loadable tagged"
  by (simp add: loadable_def obj_or_absent_def declared_tags_def py_iter_def tagged_def acme_def u_def)

theorem entry_screenshots_tags_witness:
  "\<exists>e. load_plugin_manifest no_builtins (u ''tool'', Parsed (JObj tagged)) = Inr e
       \<and> screenshots e = []
       \<and> tags e = [JStr (u ''utilities''), JStr (u ''cli''), JStr (u ''backup'')]"
proof -
  from load_returns [OF tagged_loadable, of no_builtins "u ''tool''"] obtain e where
    l: "load_plugin_manifest no_builtins (u ''tool'', Parsed (JObj tagged)) = Inr e" by blast
  have c: "dict_get tagged (u ''category'') (JStr (u ''utilities'')) = JStr (u ''utilities'')"
    by (simp add: dict_get_def tagged_def acme_def u_def)
  have t: "map_of tagged (u ''tags'') = Some (JArr [JStr (u ''cli''), JStr (u ''backup'')])"
    by (simp add: tagged_def acme_def u_def)
  from entry_screenshots_tags [OF l] c t l show ?thesis
    by (auto simp: py_iter_def)
qed

lemma version_literal:
  "u ''-v'' @ u ''1.0.0'' @ u ''/'' @ slug @ u ''-v'' @ u ''1.0.0'' @ u ''.tar.gz''
     = u ''-v1.0.0/'' @ slug @ u ''-v1.0.0.tar.gz''"
  by (simp add: u_def)

text \<open>
  C8. A manifest without \<open>version\<close> loads with the version \<open>1.0.0\<close>, and \<open>1.0.0\<close> is the
  version in its download URL.
\<close>

theorem default_version:
  assumes "loadable kvs" and "map_of kvs (u ''version'') = None"
  shows "\<exists>e. load_plugin_manifest B (slug, Parsed (JObj kvs)) = Inr e
           \<and> version e = JStr (u ''1.0.0'')
           \<and> download_url e = REPO_URL @ u ''/releases/download/'' @ slug @ u ''-v1.0.0/''
                                @ slug @ u ''-v1.0.0.tar.gz''"
proof -
  from assms(2) have v: "dict_get kvs (u ''version'') (JStr (u ''1.0.0'')) = JStr (u ''1.0.0'')"
    by (simp add: dict_get_def)
  from load_returns [OF assms(1), of B slug] show ?thesis
    by (auto simp: entry_of_def v fstr_def version_literal)
qed

theorem default_version_witness:
  "loadable [(u ''name'', JStr (u ''Tool''))]
   \<and> map_of [(u ''name'', JStr (u ''Tool''))] (u ''version'') = None
   \<and> (\<exists>e. load_plugin_manifest no_builtins (u ''tool'', Parsed (JObj [(u ''name'', JStr (u ''Tool''))])) = Inr e
           \<and> version e = JStr (u ''1.0.0'')
           \<and> download_url e = REPO_URL @ u ''/releases/download/'' @ u ''tool'' @ u ''-v1.0.0/''
                                @ u ''tool'' @ u ''-v1.0.0.tar.gz'')"
proof -
  have a: "loadable [(u ''name'', JStr (u ''Tool''))]"
    by (simp add: loadable_def obj_or_absent_def declared_tags_def u_def)
  have b: "map_of [(u ''name'', JStr (u ''Tool''))] (u ''version'') = None"
    by (simp add: u_def)
  from default_version [OF a b, of no_builtins "u ''tool''"] a b show ?thesis by simp
qed

text \<open>
  C9. A manifest without \<open>links.homepage\<close>, or without \<open>links\<close>, loads with the
  repository browse URL of its directory as homepage.
\<close>

theorem default_homepage:
  assumes "loadable kvs" and "declared_homepage kvs = None"
  shows "\<exists>e. load_plugin_manifest B (slug, Parsed (JObj kvs)) = Inr e
           \<and> homepage e = JStr (REPO_URL @ u ''/tree/main/plugins/'' @ slug)
           \<and> homepage e = JStr (repository_url e)"
proof -
  from assms(2) have h: "(case map_of kvs (u ''links'') of
         Some (JObj l) \<Rightarrow> dict_get l (u ''homepage'')
                            (JStr (REPO_URL @ u ''/tree/main/plugins/'' @ slug))
       | _ \<Rightarrow> JStr (REPO_URL @ u ''/tree/main/plugins/'' @ slug))
       = JStr (REPO_URL @ u ''/tree/main/plugins/'' @ slug)"
    by (auto simp: declared_homepage_def dict_get_def split: option.splits json.splits)
  from load_returns [OF assms(1), of B slug] show ?thesis
    unfolding h by (auto simp: entry_of_def)
qed

theorem default_homepage_witness:
  "loadable [(u ''links'', JObj [(u ''docs'', JStr (u ''https://example.org''))])]
   \<and> declared_homepage [(u ''links'', JObj [(u ''docs'', JStr (u ''https://example.org''))])] = None
   \<and> (\<exists>e. load_plugin_manifest no_builtins
            (u ''tool'', Parsed (JObj [(u ''links'', JObj [(u ''docs'', JStr (u ''https://example.org''))])])) = Inr e
           \<and> homepage e = JStr (REPO_URL @ u ''/tree/main/plugins/'' @ u ''tool'')
           \<and> homepage e = JStr (repository_url e))"
proof -
  let ?k = "[(u ''links'', JObj [(u ''docs'', JStr (u ''https://example.org''))])]"
  have a: "loadable ?k"
    by (simp add: loadable_def obj_or_absent_def declared_tags_def u_def)
  have b: "declared_homepage ?k = None"
    by (simp add: declared_homepage_def u_def)
  from default_homepage [OF a b, of no_builtins "u ''tool''"] a b show ?thesis by simp
qed

section \<open>Runs of the registry builder\<close>

lemma enc_ok_Cons: "enc_ok enc (c # s) = ((c < 128 \<or> enc c) \<and> enc_ok enc s)"
  by (simp add: enc_ok_def)

lemma enc_ok_Nil: "enc_ok enc []"
  by (simp add: enc_ok_def)

lemma print_found: "print_line B (Found n) = Inr ()"
  by (simp add: print_line_def print_text_def enc_ok_append enc_ok_Cons enc_ok_Nil enc_ok_dec
      u_def)

lemma print_generated: "stdout_enc B 9989 \<Longrightarrow> print_line B (Generated n) = Inr ()"
  by (simp add: print_line_def print_text_def enc_ok_append enc_ok_Cons enc_ok_Nil enc_ok_dec
      u_def)

text \<open>
  C1. Two plugin directories whose manifests are the empty object both load, with the name
  \<open>None\<close>; sorting compares the two names, which raises \<open>TypeError\<close> outside the handler
  of the loop, and no registry is written.
\<close>

theorem two_unnamed_plugins_raise:
  "generate_registry no_builtins (u ''2024-01-01T00:00:00'')
     (Some [Dir (u ''a'') (Some (Parsed (JObj []))), Dir (u ''b'') (Some (Parsed (JObj [])))])
   = Inl TypeError"
proof -
  have "print_line no_builtins (Loaded JNull (JStr (u ''1.0.0''))) = Inr ()"
    by (simp add: print_line_def print_text_def enc_ok_def fstr_def no_builtins_def u_def)
  then show ?thesis
    by (simp add: generate_registry_def print_found load_plugin_manifest_def json_load_def
        py_get_def dict_get_def get2_def declared_tags_def then_do_def Let_def py_lt_def
        py_num_def)
qed

section \<open>The registry of valid manifests\<close>

lemma py_lt_names:
  "str_named x \<Longrightarrow> str_named y \<Longrightarrow> py_lt B (name y) (name x) = Inr (name_str y < name_str x)"
  by (auto simp: str_named_def name_str_def py_lt_def elim!: is_strE)

lemma insort_name_str:
  "str_named x \<Longrightarrow> list_all str_named xs
     \<Longrightarrow> insort_name B x xs = Inr (insort_key name_str x xs)"
  by (induction xs) (auto simp: py_lt_names then_do_def)

lemma sort_by_name_str:
  "list_all str_named xs \<Longrightarrow> sort_by_name B xs = Inr (sort_key name_str xs)"
proof (induction xs)
  case Nil
  show ?case by simp
next
  case (Cons x xs)
  then have x: "str_named x" and xs: "list_all str_named xs" by simp_all
  from xs have "list_all str_named (sort_key name_str xs)" by (simp add: list_all_iff)
  from insort_name_str [OF x this, of B] Cons.IH [OF xs] show ?case
    by (simp add: then_do_def)
qed

lemma valid_loads:
  assumes "valid_and_loads mf"
  shows "\<exists>e. load_plugin_manifest B mf = Inr e \<and> str_named e \<and> own_urls mf e"
proof -
  from assms obtain kvs where p: "snd mf = Parsed (JObj kvs)"
    by (auto simp: valid_and_loads_def split: file_content.splits json.splits)
  with assms have l: "loadable kvs"
    and n: "lookup_str kvs (u ''name'')" "map_of kvs (u ''name'') \<noteq> None"
    and v: "lookup_str kvs (u ''version'')" "map_of kvs (u ''version'') \<noteq> None"
    by (simp_all add: valid_and_loads_def)
  from n obtain nm where nm: "map_of kvs (u ''name'') = Some (JStr nm)"
    by (auto simp: lookup_str_def elim!: is_strE)
  from v obtain ver where ver: "map_of kvs (u ''version'') = Some (JStr ver)"
    by (auto simp: lookup_str_def elim!: is_strE)
  from p have mf: "mf = (fst mf, Parsed (JObj kvs))" by (cases mf) simp
  from load_returns [OF l, of B "fst mf"] obtain e hp mv dk po ts where
    e: "load_plugin_manifest B (fst mf, Parsed (JObj kvs)) = Inr e"
       "e = entry_of B (fst mf) kvs hp mv dk po ts" by blast
  from e(2) nm have s: "str_named e"
    by (simp add: entry_of_def str_named_def dict_get_def is_str_def)
  have "own_urls mf e"
    by (simp add: own_urls_def p ver e(2) entry_of_def dict_get_def fstr_def)
  with e(1) s mf show ?thesis by metis
qed

lemma load_all_valid:
  assumes "list_all valid_and_loads ms" and "list_all (output_ok B) ms"
  shows "\<exists>loaded. load_all B ms = Inr (loaded, map (\<lambda>e. Loaded (name e) (version e)) loaded)
           \<and> list_all2 (\<lambda>m e. load_plugin_manifest B m = Inr e \<and> own_urls m e) ms loaded
           \<and> list_all str_named loaded
           \<and> list_all (\<lambda>e. enc_ok (file_enc B) (entry_points e)) loaded"
  using assms
proof (induction ms)
  case Nil
  show ?case by simp
next
  case (Cons m ms)
  then have v: "valid_and_loads m" and o: "output_ok B m" by simp_all
  from valid_loads [OF v, of B] obtain e where
    e: "load_plugin_manifest B m = Inr e" "str_named e" "own_urls m e" by blast
  from o e(1) have p: "print_line B (Loaded (name e) (version e)) = Inr ()"
    and f: "enc_ok (file_enc B) (entry_points e)"
    by (simp_all add: output_ok_def print_line_def print_text_ok)
  from Cons obtain loaded where
    l: "load_all B ms = Inr (loaded, map (\<lambda>e. Loaded (name e) (version e)) loaded)"
       "list_all2 (\<lambda>m e. load_plugin_manifest B m = Inr e \<and> own_urls m e) ms loaded"
       "list_all str_named loaded"
       "list_all (\<lambda>e. enc_ok (file_enc B) (entry_points e)) loaded"
    by auto
  show ?case
    by (rule exI [of _ "e # loaded"]) (simp add: e p f l then_do_def)
qed

lemma generate_valid:
  assumes "list_all valid_and_loads (find_plugin_manifests ds)"
    and "list_all (output_ok B) (find_plugin_manifests ds)"
    and "stdout_enc B 9989"
  shows "\<exists>loaded.
           list_all2 (\<lambda>m e. load_plugin_manifest B m = Inr e \<and> own_urls m e)
             (find_plugin_manifests ds) loaded
           \<and> list_all str_named loaded
           \<and> generate_registry B now (Some ds)
               = Inr \<lparr> written = \<lparr> reg_version = u ''1.0.0'', updated = now @ u ''Z'',
                                   repository = REPO_URL,
                                   plugins = sort_key name_str loaded \<rparr>,
                       console = Found (length (find_plugin_manifests ds))
                                 # map (\<lambda>e. Loaded (name e) (version e)) loaded
                                 @ [Generated (length loaded)] \<rparr>"
proof -
  let ?ms = "find_plugin_manifests ds"
  from load_all_valid [OF assms(1) assms(2)] obtain loaded where
    l: "load_all B ?ms = Inr (loaded, map (\<lambda>e. Loaded (name e) (version e)) loaded)"
    and t: "list_all2 (\<lambda>m e. load_plugin_manifest B m = Inr e \<and> own_urls m e) ?ms loaded"
    and s: "list_all str_named loaded"
    and f: "list_all (\<lambda>e. enc_ok (file_enc B) (entry_points e)) loaded"
    by blast
  from f have d: "list_all (\<lambda>e. enc_ok (file_enc B) (entry_points e)) (sort_key name_str loaded)"
    by (simp add: list_all_iff)
  have "generate_registry B now (Some ds)
          = Inr \<lparr> written = \<lparr> reg_version = u ''1.0.0'', updated = now @ u ''Z'',
                              repository = REPO_URL, plugins = sort_key name_str loaded \<rparr>,
                  console = Found (length ?ms)
                            # map (\<lambda>e. Loaded (name e) (version e)) loaded
                            @ [Generated (length loaded)] \<rparr>"
    by (simp add: generate_registry_def Let_def print_found l sort_by_name_str [OF s]
        json_dump_def d print_generated [OF assms(3)] then_do_def)
  with t s show ?thesis by blast
qed


lemma two_plugins_valid: "list_all valid_and_loads (find_plugin_manifests two_plugins)"
  by (simp add: two_plugins_def valid_and_loads_def loadable_def obj_or_absent_def
      declared_tags_def lookup_str_def is_str_def u_def)

lemma two_plugins_output_ok: "list_all (output_ok no_builtins) (find_plugin_manifests two_plugins)"
  by (simp add: two_plugins_def output_ok_def load_plugin_manifest_def json_load_def py_get_def
      dict_get_def get2_def declared_tags_def then_do_def Let_def fstr_def entry_points_def
      REPO_URL_def enc_ok_def no_builtins_def u_def)

lemma utf8_check_mark: "stdout_enc no_builtins 9989"
  by (simp add: no_builtins_def)

lemma two_plugins_registry:
  "generate_registry no_builtins now (Some two_plugins) = Inr out \<Longrightarrow>
     updated (written out) = now @ u ''Z''
     \<and> map name (plugins (written out)) = [JStr (u ''Alpha''), JStr (u ''Zeta'')]
     \<and> map repository_url (plugins (written out))
         = [REPO_URL @ u ''/tree/main/plugins/alpha'', REPO_URL @ u ''/tree/main/plugins/zeta'']
     \<and> map download_url (plugins (written out))
         = [REPO_URL @ u ''/releases/download/alpha-v1.2.3/alpha-v1.2.3.tar.gz'',
            REPO_URL @ u ''/releases/download/zeta-v2.0.0/zeta-v2.0.0.tar.gz'']"
  by (auto simp: generate_registry_def print_found print_generated utf8_check_mark
      two_plugins_def load_plugin_manifest_def json_load_def py_get_def dict_get_def get2_def
      declared_tags_def then_do_def Let_def py_lt_def fstr_def print_line_def print_text_def
      json_dump_def entry_points_def enc_ok_def no_builtins_def u_def
      split: sum.splits if_splits)

text \<open>
  C2, as amended. When every manifest of the listing is valid and loads, and the encoders
  of the console and of the file accept the texts of the entries, \<open>generate_registry\<close>
  writes a registry whose entries are the entries loaded from the manifests, one for each
  manifest, in a stable sort by name in ascending order of code points; the entry of a
  manifest has the repository URL and the download URL of the templates for the directory
  name and the version string of that manifest.
\<close>

theorem registry_of_valid_manifests:
  assumes "list_all valid_and_loads (find_plugin_manifests ds)"
    and "list_all (output_ok B) (find_plugin_manifests ds)"
    and "stdout_enc B 9989"
  shows "\<exists>out loaded. generate_registry B now (Some ds) = Inr out
           \<and> list_all2 (\<lambda>m e. load_plugin_manifest B m = Inr e \<and> own_urls m e)
               (find_plugin_manifests ds) loaded
           \<and> plugins (written out) = sort_key name_str loaded
           \<and> mset (plugins (written out)) = mset loaded
           \<and> length (plugins (written out)) = length (find_plugin_manifests ds)
           \<and> sorted_wrt (\<lambda>a b. name_str a \<le> name_str b) (plugins (written out))
           \<and> list_all str_named (plugins (written out))"
proof -
  from generate_valid [OF assms, of now] obtain loaded where
    t: "list_all2 (\<lambda>m e. load_plugin_manifest B m = Inr e \<and> own_urls m e)
          (find_plugin_manifests ds) loaded"
    and s: "list_all str_named loaded"
    and g: "generate_registry B now (Some ds)
              = Inr \<lparr> written = \<lparr> reg_version = u ''1.0.0'', updated = now @ u ''Z'',
                                  repository = REPO_URL,
                                  plugins = sort_key name_str loaded \<rparr>,
                      console = Found (length (find_plugin_manifests ds))
                                # map (\<lambda>e. Loaded (name e) (version e)) loaded
                                @ [Generated (length loaded)] \<rparr>"
    by blast
  from t have n: "length loaded = length (find_plugin_manifests ds)"
    by (simp add: list_all2_lengthD)
  have o: "sorted_wrt (\<lambda>a b. name_str a \<le> name_str b) (sort_key name_str loaded)"
    using sorted_sort_key [of name_str loaded] by (simp add: sorted_map)
  from s have a: "list_all str_named (sort_key name_str loaded)" by (simp add: list_all_iff)
  obtain out where out: "generate_registry B now (Some ds) = Inr out"
    and p: "plugins (written out) = sort_key name_str loaded"
    using g by simp
  from out p t n o a show ?thesis by (intro exI [of _ out] exI [of _ loaded]) simp
qed

theorem registry_of_valid_manifests_witness:
  "list_all valid_and_loads (find_plugin_manifests two_plugins)
   \<and> list_all (output_ok no_builtins) (find_plugin_manifests two_plugins)
   \<and> stdout_enc no_builtins 9989
   \<and> (\<exists>out. generate_registry no_builtins (u ''2024-01-01T00:00:00'') (Some two_plugins) = Inr out
         \<and> length (plugins (written out)) = 2
         \<and> map name (plugins (written out)) = [JStr (u ''Alpha''), JStr (u ''Zeta'')]
         \<and> map repository_url (plugins (written out))
             = [REPO_URL @ u ''/tree/main/plugins/alpha'', REPO_URL @ u ''/tree/main/plugins/zeta'']
         \<and> map download_url (plugins (written out))
             = [REPO_URL @ u ''/releases/download/alpha-v1.2.3/alpha-v1.2.3.tar.gz'',
                REPO_URL @ u ''/releases/download/zeta-v2.0.0/zeta-v2.0.0.tar.gz''])"
proof -
  from registry_of_valid_manifests
    [OF two_plugins_valid two_plugins_output_ok utf8_check_mark, of "u ''2024-01-01T00:00:00''"]
  obtain out where
    o: "generate_registry no_builtins (u ''2024-01-01T00:00:00'') (Some two_plugins) = Inr out"
    and n: "length (plugins (written out)) = length (find_plugin_manifests two_plugins)"
    by blast
  from n have "length (plugins (written out)) = 2" by (simp add: two_plugins_def)
  with o two_plugins_registry [OF o] two_plugins_valid two_plugins_output_ok utf8_check_mark
  show ?thesis by (intro conjI exI [of _ out]) simp_all
qed

text \<open>
  A manifest that the validator accepts without error or warning and that loads, with a
  tag that is a lone surrogate: \<open>json.dump\<close> raises \<open>UnicodeEncodeError\<close> when it writes
  the tag, and the run ends without a complete registry.
\<close>

theorem surrogate_tag_counterexample:
  "validate_plugin_manifest no_builtins (Parsed (JObj surrogate_tag)) = Inr ([], [])
   \<and> valid_and_loads (u ''tool'', Parsed (JObj surrogate_tag))
   \<and> generate_registry no_builtins (u ''2024-01-01T00:00:00'')
        (Some [Dir (u ''tool'') (Some (Parsed (JObj surrogate_tag)))])
       = Inl UnicodeEncodeError"
proof (intro conjI)
  show "validate_plugin_manifest no_builtins (Parsed (JObj surrogate_tag)) = Inr ([], [])"
    by (simp add: surrogate_tag_def validate_plugin_manifest_def acme_def REQUIRED_FIELDS_def
        then_do_def py_in_def id_rule_def field_def py_getitem_def validate_plugin_id_def
        truthy_def version_rule_def validate_semver_def py_int_def plain_ascii_def
        ascii_int_def strip_ws_def is_ws_def is_digit_def category_rule_def in_categories_def
        VALID_CATEGORIES_def description_rule_def py_len_def name_rule_def author_rule_def
        u_def Let_def sublist_Cons_right)
  show "valid_and_loads (u ''tool'', Parsed (JObj surrogate_tag))"
    by (simp add: surrogate_tag_def acme_def valid_and_loads_def loadable_def obj_or_absent_def
        declared_tags_def py_iter_def lookup_str_def is_str_def u_def)
  show "generate_registry no_builtins (u ''2024-01-01T00:00:00'')
          (Some [Dir (u ''tool'') (Some (Parsed (JObj surrogate_tag)))])
        = Inl UnicodeEncodeError"
    by (simp add: generate_registry_def print_found surrogate_tag_def acme_def
        load_plugin_manifest_def json_load_def py_get_def dict_get_def get2_def
        declared_tags_def py_iter_def then_do_def Let_def fstr_def print_line_def
        print_text_def json_dump_def entry_points_def enc_ok_def no_builtins_def u_def)
qed

section \<open>Two runs on the same listing\<close>




end
